theory Spec2Isabelle
  imports Main
begin

section \<open>Values shared with the external collaborators\<close>

text \<open>
  The coordinator of \<^verbatim>\<open>custom_all_reduce.py\<close> sits above four collaborators that are
  not part of the file: the process group (\<^verbatim>\<open>torch.distributed\<close>), the CUDA runtime
  wrapper (\<^verbatim>\<open>CudaRTLibrary\<close>), the NVML topology library (\<^verbatim>\<open>pynvml\<close>) and the native
  reduction engine (\<^verbatim>\<open>ops\<close>). Their answers are parameters of the model, collected in
  the record \<open>env\<close>; every call into one of them that has an effect is appended to a
  trace, the \<open>world\<close>, oldest call first. Logging is left out.

  Names are those of the source. Where an identifier cannot be kept, \<^verbatim>\<open>_can_p2p\<close> is
  \<open>can_p2p\<close>, \<^verbatim>\<open>__init__\<close> is \<open>init\<close>, \<^verbatim>\<open>__del__\<close> is \<open>dunder_del\<close>, and a parameter called
  \<^verbatim>\<open>group\<close> is \<open>grp\<close>.
\<close>

type_synonym address = int
type_synonym process_group = nat
type_synonym nvml_handle = nat
type_synonym ipc_handle = nat
type_synonym p2p_status = nat

definition NVML_P2P_STATUS_OK :: p2p_status where
  "NVML_P2P_STATUS_OK = 0"

datatype exn =
    AssertionError string
  | IndexError
  | TypeError
  | NVMLError nat
  | DeviceError

record tensor =
  shape :: "int list"
  dtype :: string
  element_size :: int
  is_contiguous :: bool
  storage_nbytes :: int
  storage_offset :: int
  data_ptr :: address

definition numel :: "tensor \<Rightarrow> int" where
  "numel t = prod_list (shape t)"

record torch_device =
  device_type :: string
  device_index :: "int option"

datatype device_arg = DeviceInt int | DeviceStr string | DeviceObj torch_device

type_synonym meta_row = "ipc_handle option \<times> int list option"

datatype event =
    NvmlInit
  | NvmlShutdown
  | NvmlDeviceGetHandleByIndex int
  | NvmlDeviceGetP2PStatus nvml_handle nvml_handle
  | CanDeviceAccessPeer nat nat
  | GpuP2PAccessCheck nat nat
  | AllGather int
  | CudaMalloc int
  | CudaIpcGetMemHandle address
  | AllGatherObject ipc_handle
  | CudaIpcOpenMemHandle ipc_handle
  | CudaFree address
  | TorchEmpty int
  | TorchEmptyLike tensor
  | OpsInitCustomAr nat nat tensor "address list" "address list" "address list" "address list"
  | OpsAllReduce address tensor tensor
  | OpsGetGraphBufferIpcMeta address
  | BroadcastObjectList meta_row nat
  | OpsRegisterGraphBuffers address "ipc_handle option list" "int list option list"
  | OpsDispose address

type_synonym world = "event list"

record env =
  custom_ar :: bool
  get_backend :: "process_group option \<Rightarrow> string"
  in_the_same_node_as :: "process_group option \<Rightarrow> bool list"
  get_rank :: "process_group option \<Rightarrow> nat"
  get_world_size :: "process_group option \<Rightarrow> nat"
  get_process_group_ranks :: "process_group option \<Rightarrow> nat list"
  torch_device_of_int :: "int \<Rightarrow> exn + torch_device"
  torch_device_of_str :: "string \<Rightarrow> exn + torch_device"
  visible_device_ids :: "exn + int list"
  peer_physical_device_id :: "process_group option \<Rightarrow> nat \<Rightarrow> int"
  is_cuda :: bool
  nvmlInit :: "exn option"
  nvmlDeviceGetHandleByIndex :: "int \<Rightarrow> exn + nvml_handle"
  nvmlDeviceGetP2PStatus :: "nvml_handle \<Rightarrow> nvml_handle \<Rightarrow> nat + p2p_status"
  SGLANG_SKIP_P2P_CHECK :: "string option"
  can_device_access_peer :: "nat \<Rightarrow> nat \<Rightarrow> bool"
  gpu_p2p_access_check :: "nat \<Rightarrow> nat \<Rightarrow> bool"
  cudaMalloc :: "world \<Rightarrow> int \<Rightarrow> address"
  cudaIpcGetMemHandle :: "address \<Rightarrow> ipc_handle"
  peer_ipc_handle :: "process_group option \<Rightarrow> world \<Rightarrow> nat \<Rightarrow> ipc_handle"
  cudaIpcOpenMemHandle :: "ipc_handle \<Rightarrow> address"
  torch_alloc :: "world \<Rightarrow> tensor \<Rightarrow> tensor"
  init_custom_ar :: "world \<Rightarrow> address"
  get_graph_buffer_ipc_meta :: "address \<Rightarrow> ipc_handle \<times> int list"
  peer_meta_row :: "process_group option \<Rightarrow> nat \<Rightarrow> meta_row"
  is_current_stream_capturing :: "world \<Rightarrow> bool"

text \<open>
  Python list indexing \<^verbatim>\<open>xs[i]\<close> with a non-negative index: out of range raises
  \<^verbatim>\<open>IndexError\<close>. Ranks and world sizes are natural numbers, as they are for every
  member of a process group.
\<close>

definition py_nth :: "'a list \<Rightarrow> nat \<Rightarrow> exn + 'a" where
  "py_nth xs i = (if i < length xs then Inr (xs ! i) else Inl IndexError)"

section \<open>Capability probe\<close>

subsection \<open>\<^verbatim>\<open>with_nvml_context\<close> and \<^verbatim>\<open>is_full_nvlink\<close>\<close>

text \<open>
  The decorator runs \<^verbatim>\<open>nvmlInit()\<close> outside the \<^verbatim>\<open>try\<close>, so a failing initialisation
  propagates with no session to shut down; after that \<^verbatim>\<open>nvmlShutdown()\<close> sits in the
  \<^verbatim>\<open>finally\<close> and runs whether the wrapped function returns or raises.
\<close>

definition with_nvml_context ::
  "env \<Rightarrow> (world \<Rightarrow> (exn + 'a) \<times> world) \<Rightarrow> world \<Rightarrow> (exn + 'a) \<times> world" where
  "with_nvml_context env fn w =
     (case nvmlInit env of
        Some e \<Rightarrow> (Inl e, w @ [NvmlInit])
      | None \<Rightarrow> (case fn (w @ [NvmlInit]) of (r, w') \<Rightarrow> (r, w' @ [NvmlShutdown])))"

text \<open>Line 54: the list comprehension over \<^verbatim>\<open>physical_device_ids\<close>; a failing lookup is
  outside every \<^verbatim>\<open>try\<close> of the function and propagates.\<close>

fun get_handles :: "env \<Rightarrow> int list \<Rightarrow> world \<Rightarrow> (exn + nvml_handle list) \<times> world" where
  "get_handles env [] w = (Inr [], w)"
| "get_handles env (i # ids) w =
     (case nvmlDeviceGetHandleByIndex env i of
        Inl e \<Rightarrow> (Inl e, w @ [NvmlDeviceGetHandleByIndex i])
      | Inr h \<Rightarrow>
          (case get_handles env ids (w @ [NvmlDeviceGetHandleByIndex i]) of
             (Inl e, w') \<Rightarrow> (Inl e, w')
           | (Inr hs, w') \<Rightarrow> (Inr (h # hs), w')))"

text \<open>
  Lines 56--69, the inner loop over \<^verbatim>\<open>enumerate(handles)\<close> for a fixed \<open>(i, handle)\<close>.
  \<open>Some b\<close> is \<^verbatim>\<open>return b\<close>; \<open>None\<close> is the loop running to its end. The status query
  answers \<open>Inr status\<close> or raises \<^verbatim>\<open>NVMLError\<close> (\<open>Inl code\<close>), which the \<^verbatim>\<open>except\<close> turns
  into \<^verbatim>\<open>return False\<close>.
\<close>

fun nvlink_inner ::
  "env \<Rightarrow> nat \<Rightarrow> nvml_handle \<Rightarrow> (nat \<times> nvml_handle) list \<Rightarrow> world \<Rightarrow> bool option \<times> world" where
  "nvlink_inner env i handle [] w = (None, w)"
| "nvlink_inner env i handle ((j, peer_handle) # rest) w =
     (if i < j then
        (case nvmlDeviceGetP2PStatus env handle peer_handle of
           Inr p2p_status \<Rightarrow>
             if p2p_status \<noteq> NVML_P2P_STATUS_OK
             then (Some False, w @ [NvmlDeviceGetP2PStatus handle peer_handle])
             else nvlink_inner env i handle rest (w @ [NvmlDeviceGetP2PStatus handle peer_handle])
         | Inl code \<Rightarrow> (Some False, w @ [NvmlDeviceGetP2PStatus handle peer_handle]))
      else nvlink_inner env i handle rest w)"

text \<open>Lines 55 and 70: the outer loop, and \<^verbatim>\<open>return True\<close> after it.\<close>

fun nvlink_outer ::
  "env \<Rightarrow> nvml_handle list \<Rightarrow> (nat \<times> nvml_handle) list \<Rightarrow> world \<Rightarrow> bool \<times> world" where
  "nvlink_outer env handles [] w = (True, w)"
| "nvlink_outer env handles ((i, handle) # rest) w =
     (case nvlink_inner env i handle (enumerate 0 handles) w of
        (Some b, w') \<Rightarrow> (b, w')
      | (None, w') \<Rightarrow> nvlink_outer env handles rest w')"

definition is_full_nvlink_body :: "env \<Rightarrow> int list \<Rightarrow> world \<Rightarrow> (exn + bool) \<times> world" where
  "is_full_nvlink_body env physical_device_ids w =
     (case get_handles env physical_device_ids w of
        (Inl e, w') \<Rightarrow> (Inl e, w')
      | (Inr handles, w') \<Rightarrow>
          (case nvlink_outer env handles (enumerate 0 handles) w' of
             (b, w'') \<Rightarrow> (Inr b, w'')))"

definition is_full_nvlink :: "env \<Rightarrow> int list \<Rightarrow> world \<Rightarrow> (exn + bool) \<times> world" where
  "is_full_nvlink env physical_device_ids =
     with_nvml_context env (is_full_nvlink_body env physical_device_ids)"

subsection \<open>\<^verbatim>\<open>_can_p2p\<close>\<close>

text \<open>Line 75: \<^verbatim>\<open>os.getenv("SGLANG_SKIP_P2P_CHECK", "0") == "1"\<close>.\<close>

definition skip_p2p_check :: "env \<Rightarrow> bool" where
  "skip_p2p_check env =
     ((case SGLANG_SKIP_P2P_CHECK env of None \<Rightarrow> ''0'' | Some v \<Rightarrow> v) = ''1'')"

text \<open>
  Lines 76--84, the loop over \<^verbatim>\<open>range(world_size)\<close>. With the override set, line 81
  returns the driver's answer for the peer at hand, whatever peers are left.
\<close>

fun can_p2p_loop :: "env \<Rightarrow> nat \<Rightarrow> nat list \<Rightarrow> world \<Rightarrow> bool \<times> world" where
  "can_p2p_loop env rank [] w = (True, w)"
| "can_p2p_loop env rank (i # rest) w =
     (if i = rank then can_p2p_loop env rank rest w
      else if skip_p2p_check env
      then (can_device_access_peer env rank i, w @ [CanDeviceAccessPeer rank i])
      else if \<not> gpu_p2p_access_check env rank i
      then (False, w @ [GpuP2PAccessCheck rank i])
      else can_p2p_loop env rank rest (w @ [GpuP2PAccessCheck rank i]))"

definition can_p2p :: "env \<Rightarrow> nat \<Rightarrow> nat \<Rightarrow> world \<Rightarrow> bool \<times> world" where
  "can_p2p env rank world_size w = can_p2p_loop env rank [0..<world_size] w"

subsection \<open>\<^verbatim>\<open>is_weak_contiguous\<close>\<close>

definition is_weak_contiguous :: "tensor \<Rightarrow> bool" where
  "is_weak_contiguous inp =
     (is_contiguous inp \<or>
      storage_nbytes inp - storage_offset inp * element_size inp
        = numel inp * element_size inp)"

section \<open>Shared buffer registry\<close>

text \<open>
  \<^verbatim>\<open>dist.all_gather_object(handles, handle, group=group)\<close> fills the slot of every rank of
  the group, in rank order, with the object that rank passed in: the local rank's slot
  holds \<open>handle\<close>, the slot of a peer holds what the peer exported.
\<close>

definition all_gather_object ::
  "env \<Rightarrow> process_group option \<Rightarrow> world \<Rightarrow> ipc_handle \<Rightarrow> ipc_handle list" where
  "all_gather_object env grp w handle =
     map (\<lambda>i. if i = get_rank env grp then handle else peer_ipc_handle env grp w i)
       [0..<get_world_size env grp]"

text \<open>Lines 249--254, the loop building \<^verbatim>\<open>pointers\<close>.\<close>

fun open_handles ::
  "env \<Rightarrow> nat \<Rightarrow> address \<Rightarrow> (nat \<times> ipc_handle) list \<Rightarrow> world \<Rightarrow> address list \<times> world" where
  "open_handles env rank pointer [] w = ([], w)"
| "open_handles env rank pointer ((i, h) # rest) w =
     (if i = rank
      then (case open_handles env rank pointer rest w of
              (pointers, w') \<Rightarrow> (pointer # pointers, w'))
      else (case open_handles env rank pointer rest (w @ [CudaIpcOpenMemHandle h]) of
              (pointers, w') \<Rightarrow> (cudaIpcOpenMemHandle env h # pointers, w')))"

definition create_shared_buffer ::
  "env \<Rightarrow> int \<Rightarrow> process_group option \<Rightarrow> world \<Rightarrow> address list \<times> world" where
  "create_shared_buffer env size_in_bytes grp w =
     (let pointer = cudaMalloc env w size_in_bytes;
          w1 = w @ [CudaMalloc size_in_bytes];
          handle = cudaIpcGetMemHandle env pointer;
          w2 = w1 @ [CudaIpcGetMemHandle pointer];
          world_size = get_world_size env grp;
          rank = get_rank env grp;
          handles = all_gather_object env grp w2 handle;
          w3 = w2 @ [AllGatherObject handle]
      in open_handles env rank pointer (enumerate 0 handles) w3)"

definition free_shared_buffer ::
  "env \<Rightarrow> address list \<Rightarrow> process_group option \<Rightarrow> world \<Rightarrow> exn option \<times> world" where
  "free_shared_buffer env pointers grp w =
     (let rank = get_rank env grp
      in case py_nth pointers rank of
           Inl e \<Rightarrow> (Some e, w)
         | Inr p \<Rightarrow> (None, w @ [CudaFree p]))"

section \<open>The coordinator\<close>

text \<open>
  The attributes of a \<^verbatim>\<open>CustomAllreduce\<close> object. \<open>IS_CAPTURING\<close> is \<^verbatim>\<open>_IS_CAPTURING\<close>,
  \<open>ptr\<close> is \<^verbatim>\<open>_ptr\<close>, \<open>pgroup\<close> is \<^verbatim>\<open>group\<close>. The attributes below \<open>disabled\<close> are
  assigned only on the way to \<^verbatim>\<open>self.disabled = False\<close>, and the methods modelled here
  read them only behind a test of \<open>disabled\<close>; on an object that never got them they
  hold the values of \<open>blank\<close>.
\<close>

record coordinator =
  IS_CAPTURING :: bool
  disabled :: bool
  pgroup :: "process_group option"
  device :: torch_device
  max_size :: int
  rank :: nat
  world_size :: nat
  full_nvlink :: bool
  max_required_workspace_size :: "int list"
  barrier_max_size :: int
  buffer_ptrs :: "address list"
  tmp_result_buffer_ptrs :: "address list"
  rank_data_base :: tensor
  barrier_in_ptrs :: "address list"
  barrier_out_ptrs :: "address list"
  ptr :: address

definition SUPPORTED_WORLD_SIZES :: "nat list" where
  "SUPPORTED_WORLD_SIZES = [2, 4, 6, 8]"

definition default_max_size :: int where
  "default_max_size = 8192 * 1024"

definition blank_tensor :: tensor where
  "blank_tensor = \<lparr>shape = [], dtype = [], element_size = 0, is_contiguous = False,
     storage_nbytes = 0, storage_offset = 0, data_ptr = 0\<rparr>"

definition blank :: coordinator where
  "blank = \<lparr>IS_CAPTURING = False, disabled = True, pgroup = None,
     device = \<lparr>device_type = [], device_index = None\<rparr>, max_size = 0, rank = 0,
     world_size = 0, full_nvlink = False, max_required_workspace_size = [],
     barrier_max_size = 0, buffer_ptrs = [], tmp_result_buffer_ptrs = [],
     rank_data_base = blank_tensor, barrier_in_ptrs = [], barrier_out_ptrs = [], ptr = 0\<rparr>"

subsection \<open>Tensors allocated by the coordinator\<close>

text \<open>
  \<^verbatim>\<open>torch.empty_like(t)\<close> and \<^verbatim>\<open>torch.empty(n, dtype=torch.uint8)\<close> return a new tensor:
  the allocator decides its storage, the call fixes its shape and element type.
\<close>

definition torch_empty_like :: "env \<Rightarrow> world \<Rightarrow> tensor \<Rightarrow> tensor" where
  "torch_empty_like env w t =
     (torch_alloc env w t)\<lparr>shape := shape t, dtype := dtype t, element_size := element_size t\<rparr>"

definition torch_empty_uint8 :: "env \<Rightarrow> world \<Rightarrow> int \<Rightarrow> tensor" where
  "torch_empty_uint8 env w n =
     (torch_alloc env w blank_tensor)\<lparr>shape := [n], dtype := ''uint8'', element_size := 1\<rparr>"

subsection \<open>Dispatch gate and execution\<close>

definition should_custom_ar :: "coordinator \<Rightarrow> tensor \<Rightarrow> bool" where
  "should_custom_ar self inp =
     (if disabled self then False
      else let inp_size = numel inp * element_size inp in
        if inp_size mod 16 \<noteq> 0 then False
        else if \<not> is_weak_contiguous inp then False
        else if world_size self = 2
        then inp_size < max_size self \<and> inp_size < max_required_workspace_size self ! 0
        else if full_nvlink self
        then inp_size < max_size self \<and> inp_size < max_required_workspace_size self ! 1
        else False)"

definition all_reduce ::
  "env \<Rightarrow> coordinator \<Rightarrow> tensor \<Rightarrow> tensor option \<Rightarrow> world \<Rightarrow> tensor \<times> world" where
  "all_reduce env self inp out w =
     (case (case out of
              None \<Rightarrow> (torch_empty_like env w inp, w @ [TorchEmptyLike inp])
            | Some t \<Rightarrow> (t, w)) of
        (out', w1) \<Rightarrow> (out', w1 @ [OpsAllReduce (ptr self) inp out']))"

definition custom_all_reduce ::
  "env \<Rightarrow> coordinator \<Rightarrow> tensor \<Rightarrow> world \<Rightarrow> tensor option \<times> world" where
  "custom_all_reduce env self input w =
     (if disabled self \<or> \<not> should_custom_ar self input then (None, w)
      else if IS_CAPTURING self then
        (if is_current_stream_capturing env w
         then (case all_reduce env self input None w of (out, w') \<Rightarrow> (Some out, w'))
         else (Some (torch_empty_like env w input), w @ [TorchEmptyLike input]))
      else (case all_reduce env self input None w of (out, w') \<Rightarrow> (Some out, w')))"

subsection \<open>Graph buffer registration and the capture context manager\<close>

text \<open>
  \<^verbatim>\<open>dist.broadcast_object_list(row, src=src, ...)\<close> leaves the row of the sending process as
  it is and overwrites it with the sender's row everywhere else; \<^verbatim>\<open>src\<close> is a rank of the
  default group.
\<close>

definition broadcast_object_list ::
  "env \<Rightarrow> process_group option \<Rightarrow> meta_row \<Rightarrow> nat \<Rightarrow> meta_row" where
  "broadcast_object_list env grp row src =
     (if src = get_rank env None then row else peer_meta_row env grp src)"

text \<open>Lines 290--293; \<^verbatim>\<open>all_data[i]\<close> raises \<^verbatim>\<open>IndexError\<close> when there are more ranks than rows.\<close>

fun broadcast_rows ::
  "env \<Rightarrow> process_group option \<Rightarrow> meta_row list \<Rightarrow> (nat \<times> nat) list \<Rightarrow> world
     \<Rightarrow> (exn + meta_row list) \<times> world" where
  "broadcast_rows env grp all_data [] w = (Inr all_data, w)"
| "broadcast_rows env grp all_data ((i, src) # rest) w =
     (case py_nth all_data i of
        Inl e \<Rightarrow> (Inl e, w)
      | Inr row \<Rightarrow>
          broadcast_rows env grp (all_data[i := broadcast_object_list env grp row src]) rest
            (w @ [BroadcastObjectList row src]))"

definition register_graph_buffers :: "env \<Rightarrow> coordinator \<Rightarrow> world \<Rightarrow> exn option \<times> world" where
  "register_graph_buffers env self w =
     (case get_graph_buffer_ipc_meta env (ptr self) of
        (handle, offset) \<Rightarrow>
          let w1 = w @ [OpsGetGraphBufferIpcMeta (ptr self)];
              all_data = replicate (get_world_size env (pgroup self)) (None, None)
          in if rank self < length all_data then
               (case broadcast_rows env (pgroup self)
                       (all_data[rank self := (Some handle, Some offset)])
                       (enumerate 0 (sort (get_process_group_ranks env (pgroup self)))) w1 of
                  (Inl e, w2) \<Rightarrow> (Some e, w2)
                | (Inr rows, w2) \<Rightarrow>
                    (None, w2 @ [OpsRegisterGraphBuffers (ptr self) (map fst rows) (map snd rows)]))
             else (Some IndexError, w1))"

text \<open>
  \<^verbatim>\<open>capture\<close> is a generator under \<^verbatim>\<open>@contextmanager\<close>: \<open>capture_enter\<close> is the code up to
  the \<^verbatim>\<open>yield\<close>, \<open>capture_exit\<close> the \<^verbatim>\<open>finally\<close> block. The body of the \<^verbatim>\<open>with\<close> statement
  is any code: it returns the coordinator and the world as it leaves them, with \<open>Some e\<close>
  when it raised \<open>e\<close>. An exception of the \<^verbatim>\<open>finally\<close> block replaces the body's.
\<close>

definition capture_enter :: "coordinator \<Rightarrow> coordinator" where
  "capture_enter self = self\<lparr>IS_CAPTURING := True\<rparr>"

definition capture_exit ::
  "env \<Rightarrow> coordinator \<Rightarrow> world \<Rightarrow> exn option \<times> coordinator \<times> world" where
  "capture_exit env self w =
     (let self' = self\<lparr>IS_CAPTURING := False\<rparr>
      in if \<not> disabled self'
         then (case register_graph_buffers env self' w of (r, w') \<Rightarrow> (r, self', w'))
         else (None, self', w))"

definition capture ::
  "env \<Rightarrow> (coordinator \<Rightarrow> world \<Rightarrow> exn option \<times> coordinator \<times> world)
     \<Rightarrow> coordinator \<Rightarrow> world \<Rightarrow> exn option \<times> coordinator \<times> world" where
  "capture env body self w =
     (case body (capture_enter self) w of
        (r, self1, w1) \<Rightarrow>
          (case capture_exit env self1 w1 of
             (Some e, self2, w2) \<Rightarrow> (Some e, self2, w2)
           | (None, self2, w2) \<Rightarrow> (r, self2, w2)))"

subsection \<open>Teardown\<close>

text \<open>
  Lines 359--362 call \<^verbatim>\<open>free_shared_buffer\<close> with no \<^verbatim>\<open>group\<close>, so its rank is the rank in
  the default group (\<^verbatim>\<open>group=None\<close>). An \<^verbatim>\<open>IndexError\<close> of one of the calls leaves \<^verbatim>\<open>close\<close>
  before line 363.
\<close>

definition close :: "env \<Rightarrow> coordinator \<Rightarrow> world \<Rightarrow> exn option \<times> coordinator \<times> world" where
  "close env self w =
     (if \<not> disabled self \<and> ptr self \<noteq> 0 then
        (let w0 = w @ [OpsDispose (ptr self)] in
         case free_shared_buffer env (buffer_ptrs self) None w0 of
           (Some e, w1) \<Rightarrow> (Some e, self, w1)
         | (None, w1) \<Rightarrow>
         (case free_shared_buffer env (tmp_result_buffer_ptrs self) None w1 of
            (Some e, w2) \<Rightarrow> (Some e, self, w2)
          | (None, w2) \<Rightarrow>
          (case free_shared_buffer env (barrier_in_ptrs self) None w2 of
             (Some e, w3) \<Rightarrow> (Some e, self, w3)
           | (None, w3) \<Rightarrow>
           (case free_shared_buffer env (barrier_out_ptrs self) None w3 of
              (Some e, w4) \<Rightarrow> (Some e, self, w4)
            | (None, w4) \<Rightarrow> (None, self\<lparr>ptr := 0\<rparr>, w4)))))
      else (None, self, w))"

definition dunder_del :: "env \<Rightarrow> coordinator \<Rightarrow> world \<Rightarrow> exn option \<times> coordinator \<times> world" where
  "dunder_del env self w = close env self w"

subsection \<open>Construction\<close>

text \<open>Python list indexing with any integer: a negative index counts from the end.\<close>

definition py_index :: "'a list \<Rightarrow> int \<Rightarrow> exn + 'a" where
  "py_index xs i =
     (let n = int (length xs)
      in if 0 \<le> i \<and> i < n then Inr (xs ! nat i)
         else if - n \<le> i \<and> i < 0 then Inr (xs ! nat (n + i))
         else Inl IndexError)"

text \<open>
  \<^verbatim>\<open>dist.all_gather(gather_list, tensor, group=self.group)\<close> followed by \<^verbatim>\<open>t.item()\<close> for
  every entry: one integer per rank, in rank order, the local rank's being its own.
\<close>

definition all_gather :: "env \<Rightarrow> process_group option \<Rightarrow> int \<Rightarrow> int list" where
  "all_gather env grp v =
     map (\<lambda>i. if i = get_rank env grp then v else peer_physical_device_id env grp i)
       [0..<get_world_size env grp]"

text \<open>Lines 153--159: an integer or a string goes through \<^verbatim>\<open>torch.device\<close>, which may raise.\<close>

definition resolve_device :: "env \<Rightarrow> device_arg \<Rightarrow> exn + torch_device" where
  "resolve_device env dev =
     (case dev of
        DeviceInt n \<Rightarrow> torch_device_of_int env n
      | DeviceStr s \<Rightarrow> torch_device_of_str env s
      | DeviceObj d \<Rightarrow> Inr d)"

text \<open>
  Lines 161--167. \<open>visible_device_ids\<close> is the list parsed from \<^verbatim>\<open>CUDA_VISIBLE_DEVICES\<close>
  (the parse may raise) or the range over the device count; indexing it with a device
  that has no index raises \<^verbatim>\<open>TypeError\<close>.
\<close>

definition physical_device_id_of :: "env \<Rightarrow> torch_device \<Rightarrow> exn + int" where
  "physical_device_id_of env d =
     (case visible_device_ids env of
        Inl e \<Rightarrow> Inl e
      | Inr device_ids \<Rightarrow>
          (case device_index d of
             None \<Rightarrow> Inl TypeError
           | Some k \<Rightarrow> py_index device_ids k))"

text \<open>Lines 199--231: the attributes of an enabled coordinator, the four shared regions,
  the private scratch tensor and the native engine.\<close>

definition init_buffers ::
  "env \<Rightarrow> process_group option \<Rightarrow> int \<Rightarrow> coordinator \<Rightarrow> nat \<Rightarrow> nat \<Rightarrow> bool \<Rightarrow> world
     \<Rightarrow> coordinator \<times> world" where
  "init_buffers env grp max_sz self rnk ws nvl w =
     (let self1 = self\<lparr>max_size := max_sz, rank := rnk, world_size := ws, full_nvlink := nvl,
                       max_required_workspace_size := [16 * 1024 * 1024, 8 * 1024 * 1024],
                       barrier_max_size := 8 * (36 + 2) * 8\<rparr>
      in case create_shared_buffer env max_sz grp w of
           (bufs, w1) \<Rightarrow>
      (case create_shared_buffer env max_sz grp w1 of
           (tmps, w2) \<Rightarrow>
      (let scratch = torch_empty_uint8 env w2 (8 * 1024 * 1024);
           w3 = w2 @ [TorchEmpty (8 * 1024 * 1024)]
       in case create_shared_buffer env (barrier_max_size self1) grp w3 of
            (b_in, w4) \<Rightarrow>
       (case create_shared_buffer env (barrier_max_size self1) grp w4 of
            (b_out, w5) \<Rightarrow>
              (self1\<lparr>buffer_ptrs := bufs, tmp_result_buffer_ptrs := tmps,
                      rank_data_base := scratch, barrier_in_ptrs := b_in,
                      barrier_out_ptrs := b_out, ptr := init_custom_ar env w5,
                      disabled := False\<rparr>,
               w5 @ [OpsInitCustomAr rnk ws scratch bufs tmps b_in b_out])))))"

text \<open>Lines 175--197: \<^verbatim>\<open>assert is_cuda()\<close>, the NVLink test and the P2P test.\<close>

definition init_probe ::
  "env \<Rightarrow> process_group option \<Rightarrow> int \<Rightarrow> coordinator \<Rightarrow> nat \<Rightarrow> nat \<Rightarrow> int list \<Rightarrow> world
     \<Rightarrow> exn option \<times> coordinator \<times> world" where
  "init_probe env grp max_sz self rnk ws physical_device_ids w =
     (if \<not> is_cuda env then (Some (AssertionError []), self, w)
      else case is_full_nvlink env physical_device_ids w of
             (Inl e, w1) \<Rightarrow> (Some e, self, w1)
           | (Inr nvl, w1) \<Rightarrow>
               if ws > 2 \<and> \<not> nvl then (None, self, w1)
               else (case can_p2p env rnk ws w1 of
                       (ok, w2) \<Rightarrow>
                         if \<not> ok then (None, self, w2)
                         else (case init_buffers env grp max_sz self rnk ws nvl w2 of
                                 (self', w3) \<Rightarrow> (None, self', w3))))"

text \<open>Lines 153--173: the device, its physical id and the ids of the whole group.\<close>

definition init_device ::
  "env \<Rightarrow> process_group option \<Rightarrow> device_arg \<Rightarrow> int \<Rightarrow> coordinator \<Rightarrow> nat \<Rightarrow> nat \<Rightarrow> world
     \<Rightarrow> exn option \<times> coordinator \<times> world" where
  "init_device env grp dev max_sz self rnk ws w =
     (case resolve_device env dev of
        Inl e \<Rightarrow> (Some e, self, w)
      | Inr d \<Rightarrow>
          (let self1 = self\<lparr>device := d\<rparr>
           in case physical_device_id_of env d of
                Inl e \<Rightarrow> (Some e, self1, w)
              | Inr physical_device_id \<Rightarrow>
                  init_probe env grp max_sz self1 rnk ws
                    (all_gather env grp physical_device_id) (w @ [AllGather physical_device_id])))"

text \<open>
  \<^verbatim>\<open>__init__\<close>, lines 115--151, then the stages above. The result is the exception that
  left the constructor, if any, and the object as the constructor left it.
\<close>

definition init ::
  "env \<Rightarrow> process_group option \<Rightarrow> device_arg \<Rightarrow> int \<Rightarrow> world
     \<Rightarrow> exn option \<times> coordinator \<times> world" where
  "init env grp dev max_sz w =
     (let self0 = blank\<lparr>IS_CAPTURING := False, disabled := True\<rparr>
      in if \<not> custom_ar env then (None, self0, w)
         else let self1 = self0\<lparr>pgroup := grp\<rparr>
           in if get_backend env grp = ''nccl''
              then (Some (AssertionError ''CustomAllreduce should be attached to a non-NCCL group.''),
                    self1, w)
              else if \<not> list_all (\<lambda>b. b) (in_the_same_node_as env grp) then (None, self1, w)
              else let rnk = get_rank env grp;
                       ws = get_world_size env grp
                in if ws = 1 then (None, self1, w)
                   else if ws \<notin> set SUPPORTED_WORLD_SIZES then (None, self1, w)
                   else init_device env grp dev max_sz self1 rnk ws w)"

subsection \<open>Sequences of calls on one coordinator\<close>

text \<open>
  What a caller can do with a coordinator after construction, one public entry point at
  a time; a \<^verbatim>\<open>with self.capture():\<close> block is \<open>CaptureEnter\<close>, the calls of its body, then
  \<open>CaptureExit\<close>. \<open>step\<close> keeps the coordinator and the world and drops the value or the
  exception handed to the caller.
\<close>

datatype call = CustomAllReduce tensor | CaptureEnter | CaptureExit | Close

fun step :: "env \<Rightarrow> call \<Rightarrow> coordinator \<times> world \<Rightarrow> coordinator \<times> world" where
  "step env (CustomAllReduce t) (self, w) = (self, snd (custom_all_reduce env self t w))"
| "step env CaptureEnter (self, w) = (capture_enter self, w)"
| "step env CaptureExit (self, w) = snd (capture_exit env self w)"
| "step env Close (self, w) = snd (close env self w)"

definition run :: "env \<Rightarrow> call list \<Rightarrow> coordinator \<times> world \<Rightarrow> coordinator \<times> world" where
  "run env calls s = fold (step env) calls s"

section \<open>Notions used in the statements\<close>

subsection \<open>NVLink probe\<close>

text \<open>
  A pair of handles is fine when its status query answers \<^verbatim>\<open>NVML_P2P_STATUS_OK\<close>; a
  query that raises is not fine. \<open>index_pairs n\<close> lists the pairs \<open>i < j < n\<close> in the
  order of the two loops, \<open>upto_first_bad\<close> cuts a list after its first element that
  fails a test, and \<open>pair_queries\<close> is the sequence of status queries up to and including
  the first pair that is not fine.
\<close>

definition p2p_ok :: "env \<Rightarrow> nvml_handle \<times> nvml_handle \<Rightarrow> bool" where
  "p2p_ok env hp = (nvmlDeviceGetP2PStatus env (fst hp) (snd hp) = Inr NVML_P2P_STATUS_OK)"

definition upto_first_bad :: "('a \<Rightarrow> bool) \<Rightarrow> 'a list \<Rightarrow> 'a list" where
  "upto_first_bad P xs = takeWhile P xs @ take 1 (dropWhile P xs)"

definition index_pairs :: "nat \<Rightarrow> (nat \<times> nat) list" where
  "index_pairs n = concat (map (\<lambda>i. map (Pair i) [Suc i..<n]) [0..<n])"

definition status_query :: "nvml_handle \<times> nvml_handle \<Rightarrow> event" where
  "status_query hp = NvmlDeviceGetP2PStatus (fst hp) (snd hp)"

definition row_pairs ::
  "nat \<Rightarrow> nvml_handle \<Rightarrow> (nat \<times> nvml_handle) list \<Rightarrow> (nvml_handle \<times> nvml_handle) list" where
  "row_pairs i h L = map (\<lambda>jp. (h, snd jp)) (filter (\<lambda>jp. i < fst jp) L)"

definition all_pairs_ok :: "env \<Rightarrow> nvml_handle list \<Rightarrow> bool" where
  "all_pairs_ok env hs =
     list_all (p2p_ok env) (map (\<lambda>ij. (hs ! fst ij, hs ! snd ij)) (index_pairs (length hs)))"

definition pair_queries :: "env \<Rightarrow> nvml_handle list \<Rightarrow> event list" where
  "pair_queries env hs =
     map status_query
       (upto_first_bad (p2p_ok env)
          (map (\<lambda>ij. (hs ! fst ij, hs ! snd ij)) (index_pairs (length hs))))"

subsection \<open>Dispatch gate\<close>

text \<open>
  The eligibility procedure in the words of the specification, section 4.4: false at
  once when disabled; false when the byte size is not a multiple of 16; false when the
  buffer is neither contiguous nor weakly contiguous; for world size 2, eligible iff the
  size is strictly below the global maximum and the budget of the 2-rank case; for world
  size above 2, only with the full NVLink mesh and a size strictly below the global
  maximum and the budget of the larger fan-ins; ineligible otherwise.
\<close>

definition isEligible_spec ::
  "bool \<Rightarrow> nat \<Rightarrow> bool \<Rightarrow> int \<Rightarrow> int \<Rightarrow> int \<Rightarrow> int \<Rightarrow> bool \<Rightarrow> bool \<Rightarrow> bool" where
  "isEligible_spec is_disabled ws mesh global_max budget2 budgetN tensorBytes contiguous weak =
     (if is_disabled then False
      else if \<not> 16 dvd tensorBytes then False
      else if \<not> contiguous \<and> \<not> weak then False
      else if ws = 2 then tensorBytes < global_max \<and> tensorBytes < budget2
      else if ws > 2 then mesh \<and> tensorBytes < global_max \<and> tensorBytes < budgetN
      else False)"

subsection \<open>What the calls after construction leave alone\<close>

text \<open>
  Two coordinators have the same configuration when they differ at most in the capture
  flag and in the engine handle.
\<close>

definition same_config :: "coordinator \<Rightarrow> coordinator \<Rightarrow> bool" where
  "same_config a b \<longleftrightarrow> b = a\<lparr>IS_CAPTURING := IS_CAPTURING b, ptr := ptr b\<rparr>"

subsection \<open>Graph buffer registration\<close>

text \<open>
  A registration pass starts with the one call of \<^verbatim>\<open>ops.get_graph_buffer_ipc_meta\<close> on
  line 282 and is complete with the call of \<^verbatim>\<open>ops.register_graph_buffers\<close> on line 297;
  the two counters count these calls in a trace.
\<close>

definition is_meta_query :: "event \<Rightarrow> bool" where
  "is_meta_query e = (case e of OpsGetGraphBufferIpcMeta p \<Rightarrow> True | _ \<Rightarrow> False)"

definition is_registration :: "event \<Rightarrow> bool" where
  "is_registration e = (case e of OpsRegisterGraphBuffers p hs os \<Rightarrow> True | _ \<Rightarrow> False)"

definition registration_passes :: "world \<Rightarrow> nat" where
  "registration_passes w = length (filter is_meta_query w)"

definition registrations :: "world \<Rightarrow> nat" where
  "registrations w = length (filter is_registration w)"

section \<open>Concrete environments\<close>

text \<open>
  Four ranks on one host behind a \<^verbatim>\<open>gloo\<close> group, this process being rank 0; device \<open>i\<close>
  has the NVML handle \<open>i + 10\<close>, and the status query between the handles 10 and 12
  raises.
\<close>

definition env_nvl :: env where
  "env_nvl = \<lparr>custom_ar = True, get_backend = (\<lambda>g. ''gloo''),
     in_the_same_node_as = (\<lambda>g. [True, True, True, True]),
     get_rank = (\<lambda>g. 0), get_world_size = (\<lambda>g. 4),
     get_process_group_ranks = (\<lambda>g. [0, 1, 2, 3]),
     torch_device_of_int = (\<lambda>n. Inr \<lparr>device_type = ''cuda'', device_index = Some n\<rparr>),
     torch_device_of_str = (\<lambda>s. Inl DeviceError),
     visible_device_ids = Inr [0, 1, 2, 3],
     peer_physical_device_id = (\<lambda>g i. int i),
     is_cuda = True, nvmlInit = None,
     nvmlDeviceGetHandleByIndex = (\<lambda>i. Inr (nat i + 10)),
     nvmlDeviceGetP2PStatus = (\<lambda>a b. if a = 10 \<and> b = 12 then Inl 3 else Inr 0),
     SGLANG_SKIP_P2P_CHECK = None,
     can_device_access_peer = (\<lambda>a b. True), gpu_p2p_access_check = (\<lambda>a b. True),
     cudaMalloc = (\<lambda>w n. 4096 * (1 + int (length w))),
     cudaIpcGetMemHandle = (\<lambda>p. nat p),
     peer_ipc_handle = (\<lambda>g w i. 1000 + i),
     cudaIpcOpenMemHandle = (\<lambda>h. int h + 7),
     torch_alloc = (\<lambda>w t. t\<lparr>data_ptr := 64 * int (length w)\<rparr>),
     init_custom_ar = (\<lambda>w. 42),
     get_graph_buffer_ipc_meta = (\<lambda>p. (5, [0, 256])),
     peer_meta_row = (\<lambda>g i. (Some (6 + i), Some [])),
     is_current_stream_capturing = (\<lambda>w. False)\<rparr>"

text \<open>
  The same host with two ranks; \<open>coord0\<close> is the coordinator the constructor builds
  there with the default \<^verbatim>\<open>max_size\<close>, \<open>tensor0\<close> a contiguous tensor of 1024 bytes.
\<close>

definition env0 :: env where
  "env0 = env_nvl\<lparr>get_world_size := (\<lambda>g. 2), in_the_same_node_as := (\<lambda>g. [True, True]),
     get_process_group_ranks := (\<lambda>g. [0, 1]), visible_device_ids := Inr [0, 1]\<rparr>"

definition coord0 :: coordinator where
  "coord0 = fst (snd (init env0 None (DeviceInt 0) default_max_size []))"

definition world0 :: world where
  "world0 = snd (snd (init env0 None (DeviceInt 0) default_max_size []))"

definition tensor0 :: tensor where
  "tensor0 = \<lparr>shape = [256], dtype = ''float32'', element_size = 4, is_contiguous = True,
     storage_nbytes = 1024, storage_offset = 0, data_ptr = 8192\<rparr>"

text \<open>
  This process as rank 1 of the four.
\<close>

definition env_r1 :: env where
  "env_r1 = env_nvl\<lparr>get_rank := (\<lambda>g. 1)\<rparr>"

text \<open>
  A default group of four processes in which this process is rank 2, and a sub-group
  (any \<open>Some g\<close>) made of the default ranks 2 and 3, in which it is rank 0.
\<close>

definition env_sub :: env where
  "env_sub = env_nvl\<lparr>
     get_rank := (\<lambda>g. case g of None \<Rightarrow> 2 | Some _ \<Rightarrow> 0),
     get_world_size := (\<lambda>g. case g of None \<Rightarrow> 4 | Some _ \<Rightarrow> 2),
     get_process_group_ranks := (\<lambda>g. case g of None \<Rightarrow> [0, 1, 2, 3] | Some _ \<Rightarrow> [2, 3]),
     in_the_same_node_as := (\<lambda>g. case g of None \<Rightarrow> [True, True, True, True]
                                  | Some _ \<Rightarrow> [True, True]),
     peer_physical_device_id := (\<lambda>g i. int i + 2)\<rparr>"

definition coord_sub :: coordinator where
  "coord_sub = fst (snd (init env_sub (Some 1) (DeviceInt 2) default_max_size []))"

definition world_sub :: world where
  "world_sub = snd (snd (init env_sub (Some 1) (DeviceInt 2) default_max_size []))"

text \<open>
  The body of a \<^verbatim>\<open>with\<close> block that makes one warm-up call and then raises.
\<close>

definition body0 :: "coordinator \<Rightarrow> world \<Rightarrow> exn option \<times> coordinator \<times> world" where
  "body0 self w = (Some TypeError, self, snd (custom_all_reduce env0 self tensor0 w))"

text \<open>
  The override of the P2P check set, with a driver and a check that both report the peer
  2 as out of reach.
\<close>

definition env_skip :: env where
  "env_skip = env_nvl\<lparr>SGLANG_SKIP_P2P_CHECK := Some ''1'',
     can_device_access_peer := (\<lambda>a b. b \<noteq> 2), gpu_p2p_access_check := (\<lambda>a b. b \<noteq> 2)\<rparr>"

text \<open>
  A group whose backend is NCCL, with two and with three ranks, and a \<^verbatim>\<open>gloo\<close> group
  of three ranks.
\<close>

definition env_nccl :: env where
  "env_nccl = env0\<lparr>get_backend := (\<lambda>g. ''nccl'')\<rparr>"

definition env3 :: env where
  "env3 = env_nvl\<lparr>get_world_size := (\<lambda>g. 3)\<rparr>"

definition env_nccl3 :: env where
  "env_nccl3 = env3\<lparr>get_backend := (\<lambda>g. ''nccl'')\<rparr>"

section \<open>The NVLink probe\<close>

lemma upto_first_bad_Nil [simp]: "upto_first_bad P [] = []"
  by (simp add: upto_first_bad_def)

lemma upto_first_bad_Cons [simp]:
  "upto_first_bad P (x # xs) = (if P x then x # upto_first_bad P xs else [x])"
  by (simp add: upto_first_bad_def)

lemma upto_first_bad_append:
  "upto_first_bad P (xs @ ys) =
     (if list_all P xs then xs @ upto_first_bad P ys else upto_first_bad P xs)"
  by (induction xs) auto

lemma upto_first_bad_all: "list_all P xs \<Longrightarrow> upto_first_bad P xs = xs"
  by (induction xs) auto

lemma upto_first_bad_map:
  "upto_first_bad P (map f xs) = map f (upto_first_bad (\<lambda>x. P (f x)) xs)"
  by (induction xs) auto

lemma get_handles_ok:
  "map (nvmlDeviceGetHandleByIndex env) ids = map Inr hs \<Longrightarrow>
   get_handles env ids w = (Inr hs, w @ map NvmlDeviceGetHandleByIndex ids)"
proof (induction ids arbitrary: hs w)
  case Nil
  then show ?case by simp
next
  case (Cons i ids)
  then obtain h hs' where hs: "hs = h # hs'" by (cases hs) auto
  with Cons.prems have "nvmlDeviceGetHandleByIndex env i = Inr h"
    and "map (nvmlDeviceGetHandleByIndex env) ids = map Inr hs'" by auto
  with Cons.IH [of hs'] hs show ?case by simp
qed

lemma get_handles_Inr:
  "get_handles env ids w = (Inr hs, w') \<Longrightarrow>
   map (nvmlDeviceGetHandleByIndex env) ids = map Inr hs"
  by (induction ids arbitrary: hs w w') (auto split: sum.splits prod.splits)

lemma get_handles_Inl:
  "get_handles env ids w = (Inl e, w') \<Longrightarrow>
   \<exists>i \<in> set ids. nvmlDeviceGetHandleByIndex env i = Inl e"
  by (induction ids arbitrary: w w') (auto split: sum.splits prod.splits)

lemma get_handles_trace:
  "\<exists>evs. snd (get_handles env ids w) = w @ evs \<and> NvmlShutdown \<notin> set evs"
proof (induction ids arbitrary: w)
  case Nil
  then show ?case by simp
next
  case (Cons i ids)
  show ?case
  proof (cases "nvmlDeviceGetHandleByIndex env i")
    case (Inl e)
    then show ?thesis by simp
  next
    case (Inr h)
    from Cons [of "w @ [NvmlDeviceGetHandleByIndex i]"] obtain evs where
      "snd (get_handles env ids (w @ [NvmlDeviceGetHandleByIndex i]))
         = (w @ [NvmlDeviceGetHandleByIndex i]) @ evs" "NvmlShutdown \<notin> set evs" by blast
    with Inr show ?thesis
      by (auto split: sum.splits prod.splits intro!: exI [of _ "NvmlDeviceGetHandleByIndex i # evs"])
  qed
qed

lemma nvlink_inner_scan:
  "nvlink_inner env i h L w =
     (if list_all (p2p_ok env) (row_pairs i h L) then None else Some False,
      w @ map status_query (upto_first_bad (p2p_ok env) (row_pairs i h L)))"
  by (induction L arbitrary: w)
     (auto simp: row_pairs_def p2p_ok_def status_query_def split: sum.splits)

lemma nvlink_outer_scan:
  "nvlink_outer env hs L w =
     (list_all (p2p_ok env) (concat (map (\<lambda>ih. row_pairs (fst ih) (snd ih) (enumerate 0 hs)) L)),
      w @ map status_query
            (upto_first_bad (p2p_ok env)
               (concat (map (\<lambda>ih. row_pairs (fst ih) (snd ih) (enumerate 0 hs)) L))))"
  by (induction L arbitrary: w)
     (auto simp: nvlink_inner_scan upto_first_bad_append upto_first_bad_all)

lemma filter_less_upt: "filter (\<lambda>j. i < j) [0..<n] = [Suc i..<n]"
  by (induction n) auto

lemma enumerate_nth: "enumerate 0 hs = map (\<lambda>j. (j, hs ! j)) [0..<length hs]"
  by (rule nth_equalityI) (simp_all add: nth_enumerate_eq)

lemma row_pairs_enumerate:
  "row_pairs i h (enumerate 0 hs) = map (\<lambda>j. (h, hs ! j)) [Suc i..<length hs]"
proof -
  have "row_pairs i h (map (\<lambda>j. (j, hs ! j)) [0..<n]) = map (\<lambda>j. (h, hs ! j)) [Suc i..<n]" for n
    by (induction n) (auto simp: row_pairs_def)
  then show ?thesis
    by (simp only: enumerate_nth)
qed

lemma handle_pairs_index:
  "concat (map (\<lambda>ih. row_pairs (fst ih) (snd ih) (enumerate 0 hs)) (enumerate 0 hs))
     = map (\<lambda>ij. (hs ! fst ij, hs ! snd ij)) (index_pairs (length hs))"
proof -
  have "concat (map (\<lambda>ih. row_pairs (fst ih) (snd ih) (enumerate 0 hs))
                  (map (\<lambda>j. (j, hs ! j)) [0..<n]))
        = map (\<lambda>ij. (hs ! fst ij, hs ! snd ij))
            (concat (map (\<lambda>i. map (Pair i) [Suc i..<length hs]) [0..<n]))" for n
    by (induction n) (simp_all add: row_pairs_enumerate o_def)
  from this [of "length hs"] show ?thesis
    unfolding index_pairs_def by (simp only: enumerate_nth [symmetric])
qed

lemma set_index_pairs: "set (index_pairs n) = {(i, j). i < j \<and> j < n}"
  by (force simp: index_pairs_def)

lemma list_all_index_pairs:
  "list_all P (map f (index_pairs n)) \<longleftrightarrow> (\<forall>i j. i < j \<and> j < n \<longrightarrow> P (f (i, j)))"
  by (auto simp: list_all_iff set_index_pairs)

lemma all_pairs_ok_iff:
  "all_pairs_ok env hs \<longleftrightarrow>
     (\<forall>i j. i < j \<and> j < length hs \<longrightarrow>
        nvmlDeviceGetP2PStatus env (hs ! i) (hs ! j) = Inr NVML_P2P_STATUS_OK)"
  by (simp add: all_pairs_ok_def list_all_index_pairs p2p_ok_def)

lemma is_full_nvlink_body_ok:
  assumes "map (nvmlDeviceGetHandleByIndex env) ids = map Inr hs"
  shows "is_full_nvlink_body env ids w =
           (Inr (all_pairs_ok env hs),
            w @ map NvmlDeviceGetHandleByIndex ids @ pair_queries env hs)"
  using get_handles_ok [OF assms, of w]
  by (simp add: is_full_nvlink_body_def nvlink_outer_scan handle_pairs_index
        all_pairs_ok_def pair_queries_def)

lemma is_full_nvlink_body_trace:
  "\<exists>evs. snd (is_full_nvlink_body env ids w) = w @ evs \<and> NvmlShutdown \<notin> set evs"
proof (cases "get_handles env ids w")
  case (Pair r w')
  from get_handles_trace [of env ids w] Pair obtain evs where
    evs: "w' = w @ evs" "NvmlShutdown \<notin> set evs" by auto
  show ?thesis
  proof (cases r)
    case (Inl e)
    with Pair evs show ?thesis by (simp add: is_full_nvlink_body_def)
  next
    case (Inr hs)
    with Pair evs show ?thesis
      by (auto simp: is_full_nvlink_body_def nvlink_outer_scan status_query_def)
  qed
qed

lemma is_full_nvlink_body_Inl:
  "fst (is_full_nvlink_body env ids w) = Inl e \<Longrightarrow>
   \<exists>i \<in> set ids. nvmlDeviceGetHandleByIndex env i = Inl e"
  by (cases "get_handles env ids w")
     (auto simp: is_full_nvlink_body_def split: sum.splits prod.splits dest: get_handles_Inl)

lemma is_full_nvlink_body_Inr:
  "fst (is_full_nvlink_body env ids w) = Inr b \<Longrightarrow>
   \<exists>hs. map (nvmlDeviceGetHandleByIndex env) ids = map Inr hs"
  by (cases "get_handles env ids w")
     (auto simp: is_full_nvlink_body_def split: sum.splits prod.splits dest: get_handles_Inr)

text \<open>
  Claim C8. \<^verbatim>\<open>is_full_nvlink\<close> answers \<^verbatim>\<open>True\<close> only if the session opened, every
  device handle was found and every pair \<open>i < j\<close> reports \<^verbatim>\<open>NVML_P2P_STATUS_OK\<close>. Once
  the session is open, it is shut down exactly once, as the last call, on every path.
  When the handles \<open>hs\<close> are found, the answer is whether all pairs are fine, a status
  query that raises counting as not fine and never leaving the function, and the queries
  made are those up to and including the first pair that is not fine. An exception leaves
  the function only from \<^verbatim>\<open>nvmlInit\<close> or from a handle lookup (line 54, outside the
  \<^verbatim>\<open>try\<close>), never from a status query.
\<close>

theorem is_full_nvlink_fail_closed:
  "(fst (is_full_nvlink env ids w) = Inr True \<longrightarrow>
      nvmlInit env = None \<and>
      (\<exists>hs. map (nvmlDeviceGetHandleByIndex env) ids = map Inr hs \<and> all_pairs_ok env hs))
   \<and> (nvmlInit env = None \<longrightarrow>
        (\<exists>evs. snd (is_full_nvlink env ids w) = w @ [NvmlInit] @ evs @ [NvmlShutdown]
               \<and> NvmlShutdown \<notin> set evs)
        \<and> (\<forall>hs. map (nvmlDeviceGetHandleByIndex env) ids = map Inr hs \<longrightarrow>
              is_full_nvlink env ids w =
                (Inr (all_pairs_ok env hs),
                 w @ [NvmlInit] @ map NvmlDeviceGetHandleByIndex ids @ pair_queries env hs
                   @ [NvmlShutdown])))
   \<and> (\<forall>e. fst (is_full_nvlink env ids w) = Inl e \<longrightarrow>
         nvmlInit env = Some e \<or> (\<exists>i \<in> set ids. nvmlDeviceGetHandleByIndex env i = Inl e))"
proof (intro conjI impI allI)
  assume t: "fst (is_full_nvlink env ids w) = Inr True"
  then show i: "nvmlInit env = None"
    by (auto simp: is_full_nvlink_def with_nvml_context_def split: option.splits)
  from t i have b: "fst (is_full_nvlink_body env ids (w @ [NvmlInit])) = Inr True"
    by (simp add: is_full_nvlink_def with_nvml_context_def split: prod.splits)
  from is_full_nvlink_body_Inr [OF b] obtain hs where
    hs: "map (nvmlDeviceGetHandleByIndex env) ids = map Inr hs" ..
  from is_full_nvlink_body_ok [OF hs, of "w @ [NvmlInit]"] b have "all_pairs_ok env hs" by simp
  with hs show "\<exists>hs. map (nvmlDeviceGetHandleByIndex env) ids = map Inr hs \<and> all_pairs_ok env hs"
    by blast
next
  assume i: "nvmlInit env = None"
  from is_full_nvlink_body_trace [of env ids "w @ [NvmlInit]"] obtain evs where
    "snd (is_full_nvlink_body env ids (w @ [NvmlInit])) = (w @ [NvmlInit]) @ evs"
    "NvmlShutdown \<notin> set evs" by blast
  with i show "\<exists>evs. snd (is_full_nvlink env ids w) = w @ [NvmlInit] @ evs @ [NvmlShutdown]
                 \<and> NvmlShutdown \<notin> set evs"
    by (auto simp: is_full_nvlink_def with_nvml_context_def split: prod.splits)
next
  fix hs
  assume "nvmlInit env = None" "map (nvmlDeviceGetHandleByIndex env) ids = map Inr hs"
  then show "is_full_nvlink env ids w =
                (Inr (all_pairs_ok env hs),
                 w @ [NvmlInit] @ map NvmlDeviceGetHandleByIndex ids @ pair_queries env hs
                   @ [NvmlShutdown])"
    by (simp add: is_full_nvlink_def with_nvml_context_def is_full_nvlink_body_ok)
next
  fix e
  assume e: "fst (is_full_nvlink env ids w) = Inl e"
  show "nvmlInit env = Some e \<or> (\<exists>i \<in> set ids. nvmlDeviceGetHandleByIndex env i = Inl e)"
  proof (cases "nvmlInit env")
    case None
    with e have "fst (is_full_nvlink_body env ids (w @ [NvmlInit])) = Inl e"
      by (simp add: is_full_nvlink_def with_nvml_context_def split: prod.splits)
    then show ?thesis by (blast dest: is_full_nvlink_body_Inl)
  next
    case (Some e')
    with e show ?thesis by (simp add: is_full_nvlink_def with_nvml_context_def)
  qed
qed

theorem is_full_nvlink_fail_closed_witness:
  "nvmlInit env_nvl = None
   \<and> map (nvmlDeviceGetHandleByIndex env_nvl) [0, 1, 2] = map Inr [10, 11, 12]
   \<and> nvmlDeviceGetP2PStatus env_nvl 10 12 = Inl 3
   \<and> is_full_nvlink env_nvl [0, 1, 2] [] =
       (Inr False,
        [NvmlInit, NvmlDeviceGetHandleByIndex 0, NvmlDeviceGetHandleByIndex 1,
         NvmlDeviceGetHandleByIndex 2, NvmlDeviceGetP2PStatus 10 11,
         NvmlDeviceGetP2PStatus 10 12, NvmlShutdown])"
proof -
  have i: "nvmlInit env_nvl = None" by (simp add: env_nvl_def)
  have h: "map (nvmlDeviceGetHandleByIndex env_nvl) [0, 1, 2] = map Inr [10, 11, 12]"
    by (simp add: env_nvl_def)
  have bad: "\<not> all_pairs_ok env_nvl [10, 11, 12]"
    by code_simp
  have q: "pair_queries env_nvl [10, 11, 12] =
             [NvmlDeviceGetP2PStatus 10 11, NvmlDeviceGetP2PStatus 10 12]"
    by code_simp
  from is_full_nvlink_fail_closed [of env_nvl "[0, 1, 2]" "[]"] i h
  have "is_full_nvlink env_nvl [0, 1, 2] [] =
          (Inr (all_pairs_ok env_nvl [10, 11, 12]),
           [] @ [NvmlInit] @ map NvmlDeviceGetHandleByIndex [0, 1, 2]
             @ pair_queries env_nvl [10, 11, 12] @ [NvmlShutdown])"
    by blast
  with bad q i h show ?thesis by (simp add: env_nvl_def)
qed

section \<open>The P2P probe\<close>

lemma can_p2p_loop_authoritative:
  "\<not> skip_p2p_check env \<Longrightarrow>
   fst (can_p2p_loop env rnk L w) = (\<forall>i \<in> set L. i \<noteq> rnk \<longrightarrow> gpu_p2p_access_check env rnk i)"
  by (induction L arbitrary: w) auto

lemma can_p2p_authoritative:
  "\<not> skip_p2p_check env \<Longrightarrow>
   fst (can_p2p env rnk ws w) = (\<forall>i < ws. i \<noteq> rnk \<longrightarrow> gpu_p2p_access_check env rnk i)"
  by (auto simp: can_p2p_def can_p2p_loop_authoritative)

lemma can_p2p_loop_override:
  "skip_p2p_check env \<Longrightarrow>
   fst (can_p2p_loop env rnk L w) =
     (case find (\<lambda>i. i \<noteq> rnk) L of None \<Rightarrow> True | Some i \<Rightarrow> can_device_access_peer env rnk i)"
  by (induction L arbitrary: w) auto

lemma can_p2p_override:
  "skip_p2p_check env \<Longrightarrow>
   fst (can_p2p env rnk ws w) =
     (case find (\<lambda>i. i \<noteq> rnk) [0..<ws] of
        None \<Rightarrow> True
      | Some i \<Rightarrow> can_device_access_peer env rnk i)"
  by (simp add: can_p2p_def can_p2p_loop_override)

text \<open>
  Claim C5. The claim says that the override changes only the check made for a peer and
  that every peer is still looked at. With the override set, line 81 returns the driver's
  answer for the first peer: here rank 0 of 4 is told \<^verbatim>\<open>True\<close> after the one query for
  peer 1, though the driver reports peer 2 as out of reach; without the override the same
  table gives \<^verbatim>\<open>False\<close> at peer 2.
\<close>

theorem can_p2p_override_first_peer_only:
  "skip_p2p_check env_skip
   \<and> \<not> can_device_access_peer env_skip 0 2
   \<and> can_p2p env_skip 0 4 [] = (True, [CanDeviceAccessPeer 0 1])
   \<and> \<not> skip_p2p_check (env_skip\<lparr>SGLANG_SKIP_P2P_CHECK := None\<rparr>)
   \<and> can_p2p (env_skip\<lparr>SGLANG_SKIP_P2P_CHECK := None\<rparr>) 0 4 []
        = (False, [GpuP2PAccessCheck 0 1, GpuP2PAccessCheck 0 2])"
  by (simp add: can_p2p_def env_skip_def env_nvl_def skip_p2p_check_def
        upt_rec [of _ 4] upt_rec [of _ 3] upt_rec [of _ 2] upt_rec [of _ 1])

section \<open>The shared buffer registry\<close>

lemma free_shared_buffer_cases:
  "free_shared_buffer env pointers grp w =
     (if get_rank env grp < length pointers
      then (None, w @ [CudaFree (pointers ! get_rank env grp)])
      else (Some IndexError, w))"
  by (simp add: free_shared_buffer_def py_nth_def)

lemma open_handles_map:
  "open_handles env rnk pointer L w =
     (map (\<lambda>ih. if fst ih = rnk then pointer else cudaIpcOpenMemHandle env (snd ih)) L,
      w @ map (\<lambda>ih. CudaIpcOpenMemHandle (snd ih)) (filter (\<lambda>ih. fst ih \<noteq> rnk) L))"
  by (induction L arbitrary: w) (auto split: prod.splits)

lemma enumerate_map_upt: "enumerate 0 (map f [0..<n]) = map (\<lambda>i. (i, f i)) [0..<n]"
  by (rule nth_equalityI) (simp_all add: nth_enumerate_eq)

lemma create_shared_buffer_eq:
  "create_shared_buffer env n grp w =
     (map (\<lambda>i. if i = get_rank env grp then cudaMalloc env w n
                else cudaIpcOpenMemHandle env
                       (peer_ipc_handle env grp
                          (w @ [CudaMalloc n, CudaIpcGetMemHandle (cudaMalloc env w n)]) i))
        [0..<get_world_size env grp],
      w @ [CudaMalloc n, CudaIpcGetMemHandle (cudaMalloc env w n),
           AllGatherObject (cudaIpcGetMemHandle env (cudaMalloc env w n))]
        @ map (\<lambda>i. CudaIpcOpenMemHandle
                       (peer_ipc_handle env grp
                          (w @ [CudaMalloc n, CudaIpcGetMemHandle (cudaMalloc env w n)]) i))
            (filter (\<lambda>i. i \<noteq> get_rank env grp) [0..<get_world_size env grp]))"
  by (simp add: create_shared_buffer_def Let_def all_gather_object_def enumerate_map_upt
        open_handles_map o_def filter_map cong: map_cong)

text \<open>
  Claim C7. \<^verbatim>\<open>create_shared_buffer\<close> returns one address per rank of the group, in rank
  order: the slot of the local rank holds the address \<^verbatim>\<open>cudaMalloc\<close> returned, every other
  slot the address obtained by opening the handle that rank exported. Given that list
  and the same group, \<^verbatim>\<open>free_shared_buffer\<close> makes one call of \<^verbatim>\<open>cudaFree\<close>, on the local
  allocation; given any list, its only call is \<^verbatim>\<open>cudaFree\<close> on the slot of the rank in
  the group it is given, or none with \<^verbatim>\<open>IndexError\<close> when the list is too short.
\<close>

theorem create_shared_buffer_slots:
  "(case create_shared_buffer env n grp w of
      (pointers, w') \<Rightarrow>
        length pointers = get_world_size env grp
        \<and> (get_rank env grp < get_world_size env grp \<longrightarrow>
              pointers ! get_rank env grp = cudaMalloc env w n)
        \<and> (\<forall>i < get_world_size env grp. i \<noteq> get_rank env grp \<longrightarrow>
              pointers ! i =
                cudaIpcOpenMemHandle env
                  (peer_ipc_handle env grp
                     (w @ [CudaMalloc n, CudaIpcGetMemHandle (cudaMalloc env w n)]) i))
        \<and> (\<forall>w2. free_shared_buffer env pointers grp w2 =
              (if get_rank env grp < get_world_size env grp
               then (None, w2 @ [CudaFree (cudaMalloc env w n)])
               else (Some IndexError, w2))))
   \<and> (\<forall>pointers w2. free_shared_buffer env pointers grp w2 =
         (if get_rank env grp < length pointers
          then (None, w2 @ [CudaFree (pointers ! get_rank env grp)])
          else (Some IndexError, w2)))"
  by (simp add: create_shared_buffer_eq free_shared_buffer_cases)

theorem create_shared_buffer_slots_witness:
  "get_rank env_r1 None < get_world_size env_r1 None
   \<and> create_shared_buffer env_r1 1024 None [] =
       ([1007, 4096, 1009, 1010],
        [CudaMalloc 1024, CudaIpcGetMemHandle 4096, AllGatherObject 4096,
         CudaIpcOpenMemHandle 1000, CudaIpcOpenMemHandle 1002, CudaIpcOpenMemHandle 1003])
   \<and> cudaMalloc env_r1 [] 1024 = 4096
   \<and> free_shared_buffer env_r1 [1007, 4096, 1009, 1010] None [] = (None, [CudaFree 4096])"
proof -
  have c: "create_shared_buffer env_r1 1024 None [] =
       ([1007, 4096, 1009, 1010],
        [CudaMalloc 1024, CudaIpcGetMemHandle 4096, AllGatherObject 4096,
         CudaIpcOpenMemHandle 1000, CudaIpcOpenMemHandle 1002, CudaIpcOpenMemHandle 1003])"
    by (simp add: create_shared_buffer_def Let_def all_gather_object_def env_r1_def env_nvl_def
          enumerate_eq_zip upt_rec [of _ 4] upt_rec [of _ 3] upt_rec [of _ 2] upt_rec [of _ 1])
  have m: "cudaMalloc env_r1 [] 1024 = 4096" "get_rank env_r1 None = 1"
    "get_world_size env_r1 None = 4"
    by (simp_all add: env_r1_def env_nvl_def)
  from create_shared_buffer_slots [where env = env_r1 and n = 1024 and grp = None and w = "[]"] c m
  show ?thesis by simp
qed

section \<open>Configuration of a constructed coordinator\<close>

lemma same_config_refl [simp]: "same_config a a"
  by (simp add: same_config_def)

lemma same_config_trans: "same_config a b \<Longrightarrow> same_config b c \<Longrightarrow> same_config a c"
  by (cases a; cases b; cases c) (simp add: same_config_def)

lemma same_config_fields:
  assumes "same_config a b"
  shows "disabled b = disabled a" "pgroup b = pgroup a" "max_size b = max_size a"
    "rank b = rank a" "world_size b = world_size a" "full_nvlink b = full_nvlink a"
    "max_required_workspace_size b = max_required_workspace_size a"
    "buffer_ptrs b = buffer_ptrs a" "tmp_result_buffer_ptrs b = tmp_result_buffer_ptrs a"
    "barrier_in_ptrs b = barrier_in_ptrs a" "barrier_out_ptrs b = barrier_out_ptrs a"
  using assms by (cases a; cases b; simp add: same_config_def)+

lemma same_config_should_custom_ar:
  "same_config a b \<Longrightarrow> should_custom_ar b inp = should_custom_ar a inp"
  by (simp add: should_custom_ar_def same_config_fields)

lemma close_same_config: "same_config self (fst (snd (close env self w)))"
  by (cases self) (simp add: close_def same_config_def free_shared_buffer_cases Let_def)

lemma capture_exit_same_config: "same_config self (fst (snd (capture_exit env self w)))"
  by (cases self) (simp add: capture_exit_def same_config_def Let_def split: prod.splits)

lemma capture_enter_same_config: "same_config self (capture_enter self)"
  by (cases self) (simp add: capture_enter_def same_config_def)

lemma step_same_config: "same_config (fst s) (fst (step env k s))"
proof (cases s)
  case (Pair self w)
  then show ?thesis
    using close_same_config [of self env w] capture_exit_same_config [of self env w]
    by (cases k) (simp_all add: capture_enter_same_config)
qed

lemma run_same_config: "same_config (fst s) (fst (run env calls s))"
proof (induction calls arbitrary: s)
  case Nil
  then show ?case by (simp add: run_def)
next
  case (Cons k calls)
  from Cons [of "step env k s"] step_same_config [of s env k] show ?case
    by (auto simp: run_def intro: same_config_trans)
qed

lemma init_buffers_fields:
  assumes "init_buffers env grp max_sz self rnk ws nvl w = (self', w')"
  shows "\<not> disabled self'" "max_size self' = max_sz" "rank self' = rnk" "world_size self' = ws"
    "full_nvlink self' = nvl"
    "max_required_workspace_size self' = [16777216, 8388608]"
    "pgroup self' = pgroup self" "IS_CAPTURING self' = IS_CAPTURING self"
  using assms by (auto simp: init_buffers_def Let_def split: prod.splits)

lemma init_probe_enabled:
  assumes "init_probe env grp max_sz self rnk ws ids w = (r, self', w')" "disabled self"
    "\<not> disabled self'"
  shows "r = None" "max_size self' = max_sz" "rank self' = rnk" "world_size self' = ws"
    "2 < ws \<longrightarrow> full_nvlink self'"
    "max_required_workspace_size self' = [16777216, 8388608]"
    "pgroup self' = pgroup self" "IS_CAPTURING self' = IS_CAPTURING self"
  using assms
  by (auto simp: init_probe_def split: if_splits prod.splits sum.splits
        dest: init_buffers_fields)

lemma init_device_enabled:
  assumes "init_device env grp dev max_sz self rnk ws w = (r, self', w')" "disabled self"
    "\<not> disabled self'"
  shows "r = None" "max_size self' = max_sz" "rank self' = rnk" "world_size self' = ws"
    "2 < ws \<longrightarrow> full_nvlink self'"
    "max_required_workspace_size self' = [16777216, 8388608]"
    "pgroup self' = pgroup self" "IS_CAPTURING self' = IS_CAPTURING self"
  using assms
  by (auto simp: init_device_def Let_def split: sum.splits dest: init_probe_enabled)

lemma init_enabled:
  assumes "init env grp dev max_sz w = (r, self, w')" "\<not> disabled self"
  shows "r = None" "max_size self = max_sz" "rank self = get_rank env grp"
    "world_size self = get_world_size env grp" "world_size self \<in> {2, 4, 6, 8}"
    "2 < world_size self \<longrightarrow> full_nvlink self"
    "max_required_workspace_size self = [16777216, 8388608]"
    "pgroup self = grp" "\<not> IS_CAPTURING self"
  using assms
  by (auto simp: init_def Let_def SUPPORTED_WORLD_SIZES_def split: if_splits
        dest: init_device_enabled)

lemmas construction_defs =
  init_def SUPPORTED_WORLD_SIZES_def default_max_size_def init_device_def resolve_device_def
  physical_device_id_of_def py_index_def init_probe_def is_full_nvlink_def
  with_nvml_context_def is_full_nvlink_body_def all_gather_def enumerate_eq_zip
  NVML_P2P_STATUS_OK_def can_p2p_def skip_p2p_check_def init_buffers_def
  create_shared_buffer_def all_gather_object_def Let_def

lemma coord0_eq:
  "init env0 None (DeviceInt 0) default_max_size [] = (None, coord0, world0)"
  by (simp add: coord0_def world0_def env0_def env_nvl_def construction_defs
        upt_rec [of _ 2] upt_rec [of _ 1])

lemma coord0_fields:
  "\<not> disabled coord0" "world_size coord0 = 2" "max_size coord0 = 8388608"
  "max_required_workspace_size coord0 = [16777216, 8388608]" "\<not> IS_CAPTURING coord0"
  "ptr coord0 = 42" "rank coord0 = 0" "pgroup coord0 = None"
  by (simp_all add: coord0_def env0_def env_nvl_def construction_defs
        upt_rec [of _ 2] upt_rec [of _ 1])

lemma coord0_buffers:
  "buffer_ptrs coord0 = [32768, 1008]" "tmp_result_buffer_ptrs coord0 = [49152, 1008]"
  "barrier_in_ptrs coord0 = [69632, 1008]" "barrier_out_ptrs coord0 = [86016, 1008]"
  by (simp_all add: coord0_def env0_def env_nvl_def construction_defs
        upt_rec [of _ 2] upt_rec [of _ 1])

section \<open>The dispatch gate\<close>

lemma should_custom_ar_cases:
  "should_custom_ar self inp =
     (\<not> disabled self \<and> (numel inp * element_size inp) mod 16 = 0 \<and> is_weak_contiguous inp \<and>
      numel inp * element_size inp < max_size self \<and>
      (if world_size self = 2
       then numel inp * element_size inp < max_required_workspace_size self ! 0
       else full_nvlink self \<and> numel inp * element_size inp < max_required_workspace_size self ! 1))"
  by (auto simp: should_custom_ar_def Let_def)

lemma tensor0_eligible: "should_custom_ar coord0 tensor0"
  by (simp add: should_custom_ar_cases coord0_fields tensor0_def numel_def
        is_weak_contiguous_def)

text \<open>
  Claim C2. On every coordinator a program can hold (built by the constructor, then used
  through any sequence of calls), \<^verbatim>\<open>should_custom_ar\<close> is the eligibility procedure of the
  specification with the global maximum \<^verbatim>\<open>max_size\<close> and the budgets 16 MiB for two ranks
  and 8 MiB for more: false when disabled, false when the byte size is not a multiple of
  16, false when the input is neither contiguous nor weakly contiguous; for world size 2
  true iff the size is strictly below both \<^verbatim>\<open>max_size\<close> and 16 MiB; for a larger world size
  true only with full NVLink and a size strictly below both \<^verbatim>\<open>max_size\<close> and 8 MiB; and
  a size equal to \<^verbatim>\<open>max_size\<close> is never eligible.
\<close>

theorem should_custom_ar_eligibility:
  assumes "run env calls (snd (init env grp dev max_sz w)) = (self, w')"
  shows "should_custom_ar self inp =
           isEligible_spec (disabled self) (world_size self) (full_nvlink self) max_sz
             (16 * 1024 * 1024) (8 * 1024 * 1024) (numel inp * element_size inp)
             (is_contiguous inp)
             (storage_nbytes inp - storage_offset inp * element_size inp
                = numel inp * element_size inp)
         \<and> (disabled self \<longrightarrow> \<not> should_custom_ar self inp)
         \<and> ((numel inp * element_size inp) mod 16 \<noteq> 0 \<longrightarrow> \<not> should_custom_ar self inp)
         \<and> (\<not> is_contiguous inp \<and> \<not> is_weak_contiguous inp \<longrightarrow> \<not> should_custom_ar self inp)
         \<and> (\<not> disabled self \<and> (numel inp * element_size inp) mod 16 = 0
              \<and> is_weak_contiguous inp \<and> world_size self = 2 \<longrightarrow>
              should_custom_ar self inp =
                (numel inp * element_size inp < max_sz
                 \<and> numel inp * element_size inp < 16 * 1024 * 1024))
         \<and> (2 < world_size self \<and> should_custom_ar self inp \<longrightarrow>
              full_nvlink self \<and> numel inp * element_size inp < max_sz
              \<and> numel inp * element_size inp < 8 * 1024 * 1024)
         \<and> (numel inp * element_size inp = max_sz \<longrightarrow> \<not> should_custom_ar self inp)"
proof -
  obtain r self0 w0 where i: "init env grp dev max_sz w = (r, self0, w0)"
    by (cases "init env grp dev max_sz w") auto
  from run_same_config [of "(self0, w0)" env calls] assms i
  have sc: "same_config self0 self" by simp
  show ?thesis
  proof (cases "disabled self")
    case True
    then show ?thesis by (simp add: should_custom_ar_def isEligible_spec_def)
  next
    case False
    with sc have "\<not> disabled self0" by (simp add: same_config_fields)
    from init_enabled [OF i this] sc
    have "max_size self = max_sz" "world_size self \<in> {2, 4, 6, 8}"
      "max_required_workspace_size self = [16777216, 8388608]"
      by (simp_all add: same_config_fields)
    with False show ?thesis
      by (auto simp: should_custom_ar_cases isEligible_spec_def is_weak_contiguous_def
            dvd_eq_mod_eq_0)
  qed
qed

theorem should_custom_ar_eligibility_witness:
  "run env0 [] (snd (init env0 None (DeviceInt 0) default_max_size [])) = (coord0, world0)
   \<and> should_custom_ar coord0 tensor0
   \<and> \<not> should_custom_ar coord0 (tensor0\<lparr>shape := [2097152], storage_nbytes := 8388608\<rparr>)
   \<and> \<not> should_custom_ar coord0 (tensor0\<lparr>shape := [255], storage_nbytes := 1020\<rparr>)"
proof -
  have r: "run env0 [] (snd (init env0 None (DeviceInt 0) default_max_size []))
             = (coord0, world0)"
    by (simp add: run_def coord0_eq)
  note t = should_custom_ar_eligibility [OF r]
  have "should_custom_ar coord0 tensor0"
    using t [of tensor0]
    by (simp add: coord0_fields tensor0_def numel_def default_max_size_def isEligible_spec_def)
  moreover have "\<not> should_custom_ar coord0 (tensor0\<lparr>shape := [2097152], storage_nbytes := 8388608\<rparr>)"
    using t [of "tensor0\<lparr>shape := [2097152], storage_nbytes := 8388608\<rparr>"]
    by (simp add: coord0_fields tensor0_def numel_def default_max_size_def isEligible_spec_def)
  moreover have "\<not> should_custom_ar coord0 (tensor0\<lparr>shape := [255], storage_nbytes := 1020\<rparr>)"
    using t [of "tensor0\<lparr>shape := [255], storage_nbytes := 1020\<rparr>"]
    by (simp add: coord0_fields tensor0_def numel_def default_max_size_def isEligible_spec_def)
  ultimately show ?thesis using r by simp
qed

section \<open>Capture-aware execution\<close>

text \<open>
  Claim C1. For an enabled coordinator and an eligible input, \<^verbatim>\<open>custom_all_reduce\<close>
  returns a fresh tensor of the shape and element type of the input in all three cases.
  With the capture flag set and the stream capturing, and with the capture flag not set,
  it is the out-of-place reduction of \<^verbatim>\<open>all_reduce\<close>: the allocation, then one call of the
  engine's \<^verbatim>\<open>all_reduce\<close> on the handle, the input and that output. With the capture
  flag set and the stream not capturing, the allocation is the only call.
\<close>

theorem custom_all_reduce_dispatch:
  assumes "\<not> disabled self" and "should_custom_ar self input"
  shows "(IS_CAPTURING self \<and> is_current_stream_capturing env w \<longrightarrow>
            custom_all_reduce env self input w =
              (Some (torch_empty_like env w input),
               w @ [TorchEmptyLike input,
                    OpsAllReduce (ptr self) input (torch_empty_like env w input)]))
         \<and> (IS_CAPTURING self \<and> \<not> is_current_stream_capturing env w \<longrightarrow>
              custom_all_reduce env self input w =
                (Some (torch_empty_like env w input), w @ [TorchEmptyLike input]))
         \<and> (\<not> IS_CAPTURING self \<longrightarrow>
              custom_all_reduce env self input w =
                (Some (torch_empty_like env w input),
                 w @ [TorchEmptyLike input,
                      OpsAllReduce (ptr self) input (torch_empty_like env w input)]))
         \<and> all_reduce env self input None w =
              (torch_empty_like env w input,
               w @ [TorchEmptyLike input,
                    OpsAllReduce (ptr self) input (torch_empty_like env w input)])
         \<and> shape (torch_empty_like env w input) = shape input
         \<and> dtype (torch_empty_like env w input) = dtype input"
  using assms by (simp add: custom_all_reduce_def all_reduce_def torch_empty_like_def)

theorem custom_all_reduce_dispatch_witness:
  "\<not> disabled coord0 \<and> should_custom_ar coord0 tensor0
   \<and> custom_all_reduce env0 (capture_enter coord0) tensor0 [] =
        (Some (tensor0\<lparr>data_ptr := 0\<rparr>), [TorchEmptyLike tensor0])
   \<and> custom_all_reduce env0 coord0 tensor0 [] =
        (Some (tensor0\<lparr>data_ptr := 0\<rparr>),
         [TorchEmptyLike tensor0, OpsAllReduce 42 tensor0 (tensor0\<lparr>data_ptr := 0\<rparr>)])"
proof -
  have e: "\<not> disabled (capture_enter coord0)" "should_custom_ar (capture_enter coord0) tensor0"
    "IS_CAPTURING (capture_enter coord0)"
    using tensor0_eligible
    by (simp_all add: capture_enter_def coord0_fields should_custom_ar_cases)
  have a: "torch_empty_like env0 [] tensor0 = tensor0\<lparr>data_ptr := 0\<rparr>"
    "\<not> is_current_stream_capturing env0 []"
    by (simp_all add: torch_empty_like_def env0_def env_nvl_def tensor0_def)
  from custom_all_reduce_dispatch [OF e(1,2), of env0 "[]"]
       custom_all_reduce_dispatch [OF coord0_fields(1) tensor0_eligible, of env0 "[]"]
       e a coord0_fields tensor0_eligible
  show ?thesis by simp
qed

section \<open>The capture context manager\<close>

lemma registration_passes_append:
  "registration_passes (w @ evs) = registration_passes w + registration_passes evs"
  by (simp add: registration_passes_def)

lemma registrations_append: "registrations (w @ evs) = registrations w + registrations evs"
  by (simp add: registrations_def)

lemma registration_passes_meta:
  "registration_passes (OpsGetGraphBufferIpcMeta p # evs) = Suc (registration_passes evs)"
  "registrations (OpsGetGraphBufferIpcMeta p # evs) = registrations evs"
  by (simp_all add: registration_passes_def registrations_def is_meta_query_def
        is_registration_def)

lemma broadcast_rows_trace:
  "\<exists>evs. snd (broadcast_rows env grp rows L w) = w @ evs
         \<and> registration_passes evs = 0 \<and> registrations evs = 0"
proof (induction L arbitrary: rows w)
  case Nil
  then show ?case by (simp add: registration_passes_def registrations_def)
next
  case (Cons p L)
  obtain i src where p: "p = (i, src)" by (cases p)
  show ?case
  proof (cases "i < length rows")
    case False
    with p show ?thesis
      by (simp add: py_nth_def registration_passes_def registrations_def)
  next
    case True
    from Cons [of "rows[i := broadcast_object_list env grp (rows ! i) src]"
                  "w @ [BroadcastObjectList (rows ! i) src]"]
    obtain evs where
      "snd (broadcast_rows env grp (rows[i := broadcast_object_list env grp (rows ! i) src]) L
              (w @ [BroadcastObjectList (rows ! i) src]))
         = (w @ [BroadcastObjectList (rows ! i) src]) @ evs"
      "registration_passes evs = 0" "registrations evs = 0" by blast
    with p True show ?thesis
      by (auto simp: py_nth_def registration_passes_def registrations_def
                     is_meta_query_def is_registration_def
               intro!: exI [of _ "BroadcastObjectList (rows ! i) src # evs"])
  qed
qed

lemma broadcast_rows_ok:
  "\<forall>p \<in> set L. fst p < length rows \<Longrightarrow>
   \<exists>rows'. fst (broadcast_rows env grp rows L w) = Inr rows'"
  by (induction L arbitrary: rows w) (auto simp: py_nth_def)

lemma register_graph_buffers_trace:
  "\<exists>r evs. register_graph_buffers env self w = (r, w @ OpsGetGraphBufferIpcMeta (ptr self) # evs)
           \<and> registration_passes evs = 0
           \<and> registrations evs = (if r = None then 1 else 0)"
proof (cases "rank self < get_world_size env (pgroup self)")
  case False
  then show ?thesis
    by (simp add: register_graph_buffers_def Let_def registration_passes_def registrations_def
          split: prod.splits)
next
  case True
  obtain handle offset where m: "get_graph_buffer_ipc_meta env (ptr self) = (handle, offset)"
    by (cases "get_graph_buffer_ipc_meta env (ptr self)")
  let ?rows = "(replicate (get_world_size env (pgroup self)) (None, None))
                 [rank self := (Some handle, Some offset)]"
  let ?L = "enumerate 0 (sort (get_process_group_ranks env (pgroup self)))"
  let ?w1 = "w @ [OpsGetGraphBufferIpcMeta (ptr self)]"
  obtain b w2 where b: "broadcast_rows env (pgroup self) ?rows ?L ?w1 = (b, w2)"
    by (cases "broadcast_rows env (pgroup self) ?rows ?L ?w1")
  from broadcast_rows_trace [of env "pgroup self" ?rows ?L ?w1] b obtain evs where
    evs: "w2 = ?w1 @ evs" "registration_passes evs = 0" "registrations evs = 0" by auto
  show ?thesis
  proof (cases b)
    case (Inl e)
    with True m b evs show ?thesis
      by (simp add: register_graph_buffers_def Let_def)
  next
    case (Inr rows')
    with True m b evs show ?thesis
      by (simp add: register_graph_buffers_def Let_def registration_passes_def
            registrations_def is_meta_query_def is_registration_def)
  qed
qed

lemma register_graph_buffers_ok:
  assumes "rank self < get_world_size env (pgroup self)"
    "length (get_process_group_ranks env (pgroup self)) \<le> get_world_size env (pgroup self)"
  shows "fst (register_graph_buffers env self w) = None"
proof -
  obtain handle offset where m: "get_graph_buffer_ipc_meta env (ptr self) = (handle, offset)"
    by (cases "get_graph_buffer_ipc_meta env (ptr self)")
  let ?rows = "(replicate (get_world_size env (pgroup self)) (None, None))
                 [rank self := (Some handle, Some offset)]"
  let ?L = "enumerate 0 (sort (get_process_group_ranks env (pgroup self)))"
  have "\<forall>p \<in> set ?L. fst p < length ?rows"
    using assms(2) by (auto simp: in_set_enumerate_eq)
  from broadcast_rows_ok [OF this, of env "pgroup self" "w @ [OpsGetGraphBufferIpcMeta (ptr self)]"]
  obtain rows' where
    "fst (broadcast_rows env (pgroup self) ?rows ?L (w @ [OpsGetGraphBufferIpcMeta (ptr self)]))
       = Inr rows'" ..
  with assms(1) m show ?thesis
    by (auto simp: register_graph_buffers_def Let_def split: prod.splits sum.splits)
qed

text \<open>
  Claim C6. Whatever the body of the \<^verbatim>\<open>with\<close> block does and whether it returns or
  raises, the body runs with the flag set and leaving the block resets the flag; it
  then starts exactly one registration pass when the coordinator is enabled and none
  when it is disabled. The pass is \<^verbatim>\<open>register_graph_buffers\<close> on the coordinator as the
  body left it; when the rank and the ranks of the group fit the world size it completes
  with one call of \<^verbatim>\<open>ops.register_graph_buffers\<close> and the body's outcome is handed on.
\<close>

theorem capture_registers_once:
  assumes "body (capture_enter self) w = (rb, self1, w1)"
  shows "IS_CAPTURING (capture_enter self)
    \<and> (case capture env body self w of
          (r, self2, w2) \<Rightarrow>
            self2 = self1\<lparr>IS_CAPTURING := False\<rparr> \<and> \<not> IS_CAPTURING self2
            \<and> (disabled self1 \<longrightarrow> w2 = w1 \<and> r = rb)
            \<and> (\<not> disabled self1 \<longrightarrow>
                  (\<exists>r'. register_graph_buffers env self2 w1 = (r', w2)
                        \<and> r = (case r' of Some e \<Rightarrow> Some e | None \<Rightarrow> rb)))
            \<and> registration_passes w2
                 = registration_passes w1 + (if disabled self1 then 0 else 1)
            \<and> registrations w2 \<le> registrations w1 + 1
            \<and> (\<not> disabled self1 \<and> rank self1 < get_world_size env (pgroup self1)
                 \<and> length (get_process_group_ranks env (pgroup self1))
                      \<le> get_world_size env (pgroup self1) \<longrightarrow>
                  r = rb \<and> registrations w2 = registrations w1 + 1))"
proof (cases "disabled self1")
  case True
  with assms show ?thesis
    by (simp add: capture_def capture_exit_def capture_enter_def Let_def)
next
  case False
  let ?s = "self1\<lparr>IS_CAPTURING := False\<rparr>"
  from register_graph_buffers_trace [of env ?s w1] obtain r' evs where
    t: "register_graph_buffers env ?s w1 = (r', w1 @ OpsGetGraphBufferIpcMeta (ptr ?s) # evs)"
       "registration_passes evs = 0" "registrations evs = (if r' = None then 1 else 0)"
    by blast
  have ok: "rank self1 < get_world_size env (pgroup self1)
            \<and> length (get_process_group_ranks env (pgroup self1))
                 \<le> get_world_size env (pgroup self1) \<longrightarrow> r' = None"
    using register_graph_buffers_ok [of ?s env w1] t(1) by simp
  from False assms t ok show ?thesis
    by (cases r')
       (simp_all add: capture_def capture_exit_def capture_enter_def Let_def
          registration_passes_append registrations_append registration_passes_meta)
qed

theorem capture_registers_once_witness:
  "body0 (capture_enter coord0) [] =
     (Some TypeError, capture_enter coord0, [TorchEmptyLike tensor0])
   \<and> \<not> disabled (capture_enter coord0)
   \<and> rank (capture_enter coord0) < get_world_size env0 (pgroup (capture_enter coord0))
   \<and> length (get_process_group_ranks env0 (pgroup (capture_enter coord0)))
        \<le> get_world_size env0 (pgroup (capture_enter coord0))
   \<and> fst (capture env0 body0 coord0 []) = Some TypeError
   \<and> \<not> IS_CAPTURING (fst (snd (capture env0 body0 coord0 [])))
   \<and> registration_passes (snd (snd (capture env0 body0 coord0 []))) = 1
   \<and> registrations (snd (snd (capture env0 body0 coord0 []))) = 1"
proof -
  have e: "\<not> disabled (capture_enter coord0)" "should_custom_ar (capture_enter coord0) tensor0"
    "IS_CAPTURING (capture_enter coord0)" "rank (capture_enter coord0) = 0"
    "pgroup (capture_enter coord0) = None"
    using tensor0_eligible
    by (simp_all add: capture_enter_def coord0_fields should_custom_ar_cases)
  have g: "get_world_size env0 None = 2" "get_process_group_ranks env0 None = [0, 1]"
    "\<not> is_current_stream_capturing env0 []"
    by (simp_all add: env0_def env_nvl_def)
  have b: "body0 (capture_enter coord0) [] =
     (Some TypeError, capture_enter coord0, [TorchEmptyLike tensor0])"
    using e g by (simp add: body0_def custom_all_reduce_def)
  have c: "registration_passes [TorchEmptyLike tensor0] = 0"
    "registrations [TorchEmptyLike tensor0] = 0"
    by (simp_all add: registration_passes_def registrations_def is_meta_query_def
          is_registration_def)
  from capture_registers_once
         [where body = body0 and self = coord0 and w = "[]" and env = env0, OF b] e g b c
  show ?thesis by (auto split: prod.splits)
qed

text \<open>
  The calls of that run: the warm-up allocation of the body, then one pass in which the
  local row is broadcast from rank 0 and the row of rank 1 is received.
\<close>

lemma capture_trace0:
  "capture env0 body0 coord0 [] =
     (Some TypeError, coord0,
      [TorchEmptyLike tensor0, OpsGetGraphBufferIpcMeta 42,
       BroadcastObjectList (Some 5, Some [0, 256]) 0, BroadcastObjectList (None, None) 1,
       OpsRegisterGraphBuffers 42 [Some 5, Some 7] [Some [0, 256], Some []]])"
proof -
  have e: "\<not> disabled (capture_enter coord0)" "should_custom_ar (capture_enter coord0) tensor0"
    "IS_CAPTURING (capture_enter coord0)" "rank (capture_enter coord0) = 0"
    "pgroup (capture_enter coord0) = None" "ptr (capture_enter coord0) = 42"
    using tensor0_eligible
    by (simp_all add: capture_enter_def coord0_fields should_custom_ar_cases)
  have g: "get_world_size env0 None = 2" "get_process_group_ranks env0 None = [0, 1]"
    "\<not> is_current_stream_capturing env0 []" "get_rank env0 None = 0"
    "get_graph_buffer_ipc_meta env0 42 = (5, [0, 256])"
    "peer_meta_row env0 None 1 = (Some 7, Some [])"
    by (simp_all add: env0_def env_nvl_def)
  have c: "(capture_enter coord0)\<lparr>IS_CAPTURING := False\<rparr> = coord0"
    using coord0_fields(5) by (cases coord0) (simp add: capture_enter_def)
  have s: "sort [0, 1 :: nat] = [0, 1]" by simp
  show ?thesis
    using e g
    by (simp add: capture_def body0_def custom_all_reduce_def capture_exit_def Let_def c
          register_graph_buffers_def coord0_fields s enumerate_eq_zip upt_rec [of _ 2]
          upt_rec [of _ 1] py_nth_def broadcast_object_list_def numeral_2_eq_2)
qed

section \<open>Teardown\<close>

lemma close_ok:
  assumes "\<not> disabled self" "ptr self \<noteq> 0"
    "get_rank env None < length (buffer_ptrs self)"
    "get_rank env None < length (tmp_result_buffer_ptrs self)"
    "get_rank env None < length (barrier_in_ptrs self)"
    "get_rank env None < length (barrier_out_ptrs self)"
  shows "close env self w =
           (None, self\<lparr>ptr := 0\<rparr>,
            w @ [OpsDispose (ptr self),
                 CudaFree (buffer_ptrs self ! get_rank env None),
                 CudaFree (tmp_result_buffer_ptrs self ! get_rank env None),
                 CudaFree (barrier_in_ptrs self ! get_rank env None),
                 CudaFree (barrier_out_ptrs self ! get_rank env None)])"
  using assms by (simp add: close_def free_shared_buffer_cases Let_def)

lemma close_closed: "ptr self = 0 \<Longrightarrow> close env self w = (None, self, w)"
  by (simp add: close_def)

lemma close_disabled: "disabled self \<Longrightarrow> close env self w = (None, self, w)"
  by (simp add: close_def)

lemma close_first_free_fails:
  assumes "\<not> disabled self" "ptr self \<noteq> 0"
    "\<not> get_rank env None < length (buffer_ptrs self)"
  shows "close env self w = (Some IndexError, self, w @ [OpsDispose (ptr self)])"
  using assms by (simp add: close_def free_shared_buffer_cases Let_def)

lemma close_result:
  "fst (snd (close env self w)) = self \<or> fst (snd (close env self w)) = self\<lparr>ptr := 0\<rparr>"
  by (simp add: close_def free_shared_buffer_cases Let_def)

text \<open>
  Claim C10. \<^verbatim>\<open>close\<close> on an enabled coordinator leaves it enabled and changes at most
  \<^verbatim>\<open>_ptr\<close>, to zero; \<^verbatim>\<open>should_custom_ar\<close> answers as before, and for an eligible input
  \<^verbatim>\<open>custom_all_reduce\<close> on the closed coordinator does not return \<^verbatim>\<open>None\<close>. When \<^verbatim>\<open>close\<close>
  returns normally from a live handle, the handle is zero and the calls made are the
  disposal and the four frees.
\<close>

theorem close_keeps_enabled:
  assumes "\<not> disabled self"
  shows "(case close env self w of
            (r, self', w') \<Rightarrow>
              \<not> disabled self'
              \<and> (self' = self \<or> self' = self\<lparr>ptr := 0\<rparr>)
              \<and> should_custom_ar self' inp = should_custom_ar self inp
              \<and> (should_custom_ar self inp \<longrightarrow>
                    fst (custom_all_reduce env self' inp w') \<noteq> None)
              \<and> (r = None \<and> ptr self \<noteq> 0 \<longrightarrow>
                    ptr self' = 0
                    \<and> w' = w @ [OpsDispose (ptr self),
                                CudaFree (buffer_ptrs self ! get_rank env None),
                                CudaFree (tmp_result_buffer_ptrs self ! get_rank env None),
                                CudaFree (barrier_in_ptrs self ! get_rank env None),
                                CudaFree (barrier_out_ptrs self ! get_rank env None)]))"
proof -
  obtain r self' w' where fields: "close env self w = (r, self', w')"
    by (cases "close env self w") auto
  from close_same_config [of self env w] fields have sc: "same_config self self'" by simp
  with assms have d: "\<not> disabled self'" by (simp add: same_config_fields)
  from close_result [of env self w] fields have
    s: "self' = self \<or> self' = self\<lparr>ptr := 0\<rparr>" by simp
  have e: "should_custom_ar self' inp = should_custom_ar self inp"
    using sc by (rule same_config_should_custom_ar)
  have c: "should_custom_ar self inp \<longrightarrow> fst (custom_all_reduce env self' inp w') \<noteq> None"
    using d e by (simp add: custom_all_reduce_def split: prod.splits)
  have f: "r = None \<and> ptr self \<noteq> 0 \<longrightarrow>
             ptr self' = 0
             \<and> w' = w @ [OpsDispose (ptr self),
                         CudaFree (buffer_ptrs self ! get_rank env None),
                         CudaFree (tmp_result_buffer_ptrs self ! get_rank env None),
                         CudaFree (barrier_in_ptrs self ! get_rank env None),
                         CudaFree (barrier_out_ptrs self ! get_rank env None)]"
    using fields assms
    by (auto simp: close_def free_shared_buffer_cases Let_def split: if_splits)
  from d s e c f fields show ?thesis by simp
qed

theorem close_keeps_enabled_witness:
  "\<not> disabled coord0
   \<and> close env0 coord0 [] =
        (None, coord0\<lparr>ptr := 0\<rparr>,
         [OpsDispose 42, CudaFree 32768, CudaFree 49152, CudaFree 69632, CudaFree 86016])
   \<and> \<not> disabled (coord0\<lparr>ptr := 0\<rparr>)
   \<and> should_custom_ar (coord0\<lparr>ptr := 0\<rparr>) tensor0
   \<and> fst (custom_all_reduce env0 (coord0\<lparr>ptr := 0\<rparr>) tensor0
            [OpsDispose 42, CudaFree 32768, CudaFree 49152, CudaFree 69632, CudaFree 86016])
        \<noteq> None"
proof -
  have r: "get_rank env0 None = 0" by (simp add: env0_def env_nvl_def)
  have c: "close env0 coord0 [] =
        (None, coord0\<lparr>ptr := 0\<rparr>,
         [OpsDispose 42, CudaFree 32768, CudaFree 49152, CudaFree 69632, CudaFree 86016])"
    by (simp add: close_ok coord0_fields coord0_buffers r)
  from close_keeps_enabled [OF coord0_fields(1), where env = env0 and w = "[]" and inp = tensor0]
       c tensor0_eligible
       coord0_fields(1)
  show ?thesis by simp
qed

lemma coord_sub_eq:
  "init env_sub (Some 1) (DeviceInt 2) default_max_size [] = (None, coord_sub, world_sub)"
  by (simp add: coord_sub_def world_sub_def env_sub_def env_nvl_def construction_defs
        upt_rec [of _ 2] upt_rec [of _ 1])

lemma coord_sub_fields:
  "\<not> disabled coord_sub" "ptr coord_sub = 42" "rank coord_sub = 0" "world_size coord_sub = 2"
  "length (buffer_ptrs coord_sub) = 2"
  by (simp_all add: coord_sub_def env_sub_def env_nvl_def construction_defs
        upt_rec [of _ 2] upt_rec [of _ 1])

text \<open>
  Claim C9. The claim asks for one disposal, one free per region, a zeroed handle and
  a second call without effect. \<^verbatim>\<open>close\<close> passes no group to \<^verbatim>\<open>free_shared_buffer\<close>, which
  then indexes the address list with the rank in the default group. On a coordinator
  built over the sub-group of the default ranks 2 and 3, by the process that is rank 0
  there and rank 2 in the default group, the first call disposes the engine and leaves
  with \<^verbatim>\<open>IndexError\<close>: nothing is freed, the handle stays as it was, and the call made
  by \<^verbatim>\<open>__del__\<close> disposes the engine a second time. Where the two ranks agree,
  \<open>close_ok\<close> and \<open>close_closed\<close> give what the claim says.
\<close>

theorem close_subgroup_disposes_twice:
  "get_rank env_sub (Some 1) = 0 \<and> get_rank env_sub None = 2
   \<and> init env_sub (Some 1) (DeviceInt 2) default_max_size [] = (None, coord_sub, world_sub)
   \<and> \<not> disabled coord_sub \<and> ptr coord_sub = 42 \<and> length (buffer_ptrs coord_sub) = 2
   \<and> close env_sub coord_sub world_sub
        = (Some IndexError, coord_sub, world_sub @ [OpsDispose 42])
   \<and> dunder_del env_sub coord_sub (world_sub @ [OpsDispose 42])
        = (Some IndexError, coord_sub, world_sub @ [OpsDispose 42, OpsDispose 42])"
proof -
  have r: "get_rank env_sub (Some 1) = 0" "get_rank env_sub None = 2"
    by (simp_all add: env_sub_def env_nvl_def)
  have n: "\<not> get_rank env_sub None < length (buffer_ptrs coord_sub)"
    by (simp add: r coord_sub_fields)
  have p: "ptr coord_sub \<noteq> 0" by (simp add: coord_sub_fields)
  note f = close_first_free_fails [OF coord_sub_fields(1) p n]
  from f [of world_sub] f [of "world_sub @ [OpsDispose 42]"] r coord_sub_eq coord_sub_fields
  show ?thesis by (simp add: dunder_del_def)
qed

section \<open>Construction\<close>

text \<open>
  Claim C3, as amended. For a group whose backend is NCCL the constructor completes
  normally, with the coordinator disabled, only when the native library is missing, the
  backend not being looked at; with the library present it stops at the assertion of
  line 125 with \<^verbatim>\<open>AssertionError\<close>, the object it leaves behind being disabled.
\<close>

theorem init_nccl_group:
  assumes "get_backend env grp = ''nccl''"
  shows "init env grp dev max_sz w =
           (if custom_ar env
            then (Some (AssertionError ''CustomAllreduce should be attached to a non-NCCL group.''),
                  blank\<lparr>IS_CAPTURING := False, disabled := True, pgroup := grp\<rparr>, w)
            else (None, blank\<lparr>IS_CAPTURING := False, disabled := True\<rparr>, w))
         \<and> disabled (fst (snd (init env grp dev max_sz w)))"
  using assms by (simp add: init_def Let_def)

theorem init_nccl_group_witness:
  "get_backend env_nccl None = ''nccl'' \<and> custom_ar env_nccl
   \<and> fst (init env_nccl None (DeviceInt 0) default_max_size []) \<noteq> None
   \<and> \<not> custom_ar (env_nccl\<lparr>custom_ar := False\<rparr>)
   \<and> init (env_nccl\<lparr>custom_ar := False\<rparr>) None (DeviceInt 0) default_max_size []
        = (None, blank\<lparr>IS_CAPTURING := False, disabled := True\<rparr>, [])"
proof -
  have a: "get_backend env_nccl None = ''nccl''" "custom_ar env_nccl"
    "get_backend (env_nccl\<lparr>custom_ar := False\<rparr>) None = ''nccl''"
    by (simp_all add: env_nccl_def env0_def env_nvl_def)
  from init_nccl_group [OF a(1), of "DeviceInt 0" default_max_size "[]"]
       init_nccl_group [OF a(3), of "DeviceInt 0" default_max_size "[]"] a
  show ?thesis by simp
qed

text \<open>
  Claim C3 as stated fails: with the native library present and an NCCL group of two
  ranks the constructor raises.
\<close>

theorem init_nccl_group_raises:
  "get_backend env_nccl None = ''nccl''
   \<and> fst (init env_nccl None (DeviceInt 0) default_max_size [])
        = Some (AssertionError ''CustomAllreduce should be attached to a non-NCCL group.'')"
  by (simp add: init_def Let_def env_nccl_def env0_def env_nvl_def)

lemma step_disabled:
  "disabled self \<Longrightarrow> disabled (fst (step env k (self, w))) \<and> snd (step env k (self, w)) = w"
  by (cases k)
     (simp_all add: custom_all_reduce_def capture_enter_def capture_exit_def close_def Let_def)

lemma run_disabled:
  "disabled self \<Longrightarrow> disabled (fst (run env calls (self, w))) \<and> snd (run env calls (self, w)) = w"
proof (induction calls arbitrary: self)
  case Nil
  then show ?case by (simp add: run_def)
next
  case (Cons k calls)
  from step_disabled [OF Cons.prems, of env k w]
  obtain self' where s: "step env k (self, w) = (self', w)" "disabled self'"
    by (cases "step env k (self, w)") auto
  from Cons.IH [OF s(2)] s(1) show ?case by (simp add: run_def)
qed

text \<open>
  Claim C4, as amended. For a world size outside 2, 4, 6, 8 the constructor makes no
  call to a collaborator and leaves an object that is disabled; after any sequence of
  calls the object is still disabled and \<^verbatim>\<open>custom_all_reduce\<close> returns \<^verbatim>\<open>None\<close> without a
  call to a collaborator. The constructor returns normally, yielding that coordinator,
  unless the native library is present and the backend of the group is NCCL; then it
  raises the \<^verbatim>\<open>AssertionError\<close> of line 125.
\<close>

theorem init_unsupported_world_size:
  assumes "get_world_size env grp \<notin> {2, 4, 6, 8}"
  shows "\<exists>r self. init env grp dev max_sz w = (r, self, w) \<and> disabled self
           \<and> r = (if custom_ar env \<and> get_backend env grp = ''nccl''
                   then Some (AssertionError
                                ''CustomAllreduce should be attached to a non-NCCL group.'')
                   else None)
           \<and> (\<forall>calls t. case run env calls (self, w) of
                  (self', w') \<Rightarrow>
                    disabled self' \<and> w' = w \<and> custom_all_reduce env self' t w' = (None, w'))"
proof -
  let ?r = "if custom_ar env \<and> get_backend env grp = ''nccl''
            then Some (AssertionError ''CustomAllreduce should be attached to a non-NCCL group.'')
            else None"
  have "init env grp dev max_sz w = (?r, fst (snd (init env grp dev max_sz w)), w)
        \<and> disabled (fst (snd (init env grp dev max_sz w)))"
    using assms by (auto simp: init_def Let_def SUPPORTED_WORLD_SIZES_def)
  then obtain self where i: "init env grp dev max_sz w = (?r, self, w)" "disabled self"
    by blast
  have "disabled self' \<and> w' = w \<and> custom_all_reduce env self' t w' = (None, w')"
    if "run env calls (self, w) = (self', w')" for calls t self' w'
    using run_disabled [OF i(2), of env calls w] that by (simp add: custom_all_reduce_def)
  then have "\<forall>calls t. case run env calls (self, w) of
                  (self', w') \<Rightarrow>
                    disabled self' \<and> w' = w \<and> custom_all_reduce env self' t w' = (None, w')"
    by (auto split: prod.splits)
  with i show ?thesis by blast
qed

theorem init_unsupported_world_size_witness:
  "get_world_size env3 None \<notin> {2, 4, 6, 8}
   \<and> custom_ar env3 \<and> get_backend env3 None \<noteq> ''nccl''
   \<and> fst (init env3 None (DeviceInt 0) default_max_size []) = None
   \<and> disabled (fst (snd (init env3 None (DeviceInt 0) default_max_size [])))
   \<and> custom_all_reduce env3
        (fst (run env3 [CaptureEnter, CustomAllReduce tensor0, CaptureExit, Close]
                (snd (init env3 None (DeviceInt 0) default_max_size []))))
        tensor0 [] = (None, [])"
proof -
  have a: "get_world_size env3 None \<notin> {2, 4, 6, 8}"
    by (simp add: env3_def env_nvl_def)
  have b: "custom_ar env3" "get_backend env3 None \<noteq> ''nccl''"
    by (simp_all add: env3_def env_nvl_def)
  from init_unsupported_world_size [OF a, of "DeviceInt 0" default_max_size "[]"] b
  obtain self where s: "init env3 None (DeviceInt 0) default_max_size [] = (None, self, [])"
    "disabled self"
    "\<And>calls t. case run env3 calls (self, []) of
        (self', w') \<Rightarrow> disabled self' \<and> w' = [] \<and> custom_all_reduce env3 self' t w' = (None, w')"
    by auto
  from s(3) [where calls = "[CaptureEnter, CustomAllReduce tensor0, CaptureExit, Close]"
               and t = tensor0]
  have "custom_all_reduce env3
          (fst (run env3 [CaptureEnter, CustomAllReduce tensor0, CaptureExit, Close] (self, [])))
          tensor0 [] = (None, [])"
    by (auto split: prod.splits)
  with a b s(1,2) show ?thesis by simp
qed

text \<open>
  Claim C4 as stated fails: with the native library present and an NCCL group of three
  ranks the constructor raises.
\<close>

theorem init_unsupported_world_size_raises:
  "get_world_size env_nccl3 None \<notin> {2, 4, 6, 8}
   \<and> fst (init env_nccl3 None (DeviceInt 0) default_max_size [])
        = Some (AssertionError ''CustomAllreduce should be attached to a non-NCCL group.'')"
  by (simp add: init_def Let_def env_nccl3_def env3_def env_nvl_def)

text \<open>
  Four ranks of which one pair has no NVLink: the constructor returns after the NVLink
  probe, with the coordinator disabled and the session shut down.
\<close>

lemma init_four_ranks_without_nvlink:
  "fst (init env_nvl None (DeviceInt 0) default_max_size []) = None
   \<and> disabled (fst (snd (init env_nvl None (DeviceInt 0) default_max_size [])))
   \<and> snd (snd (init env_nvl None (DeviceInt 0) default_max_size [])) =
       [AllGather 0, NvmlInit, NvmlDeviceGetHandleByIndex 0, NvmlDeviceGetHandleByIndex 1,
        NvmlDeviceGetHandleByIndex 2, NvmlDeviceGetHandleByIndex 3,
        NvmlDeviceGetP2PStatus 10 11, NvmlDeviceGetP2PStatus 10 12, NvmlShutdown]"
  by (simp add: env_nvl_def construction_defs
        upt_rec [of _ 4] upt_rec [of _ 3] upt_rec [of _ 2] upt_rec [of _ 1])

end
